theory Spec2Isabelle
  imports Main "HOL-Library.Sublist"
begin

section \<open>Data model (src/types.ts)\<close>

text \<open>
  JavaScript strings are modelled as HOL strings (lists of 8-bit characters), and the
  numbers that the tools report (line, column, severity code, priority, counts) as
  integers, of any size and without the rounding of a double.  An optional property
  \<^verbatim>\<open>p?: T\<close> is a value of type \<open>T option\<close>.
\<close>

type_synonym number = int

datatype Severity = Error | Warning

subsection \<open>Parsed documents\<close>

text \<open>
  What \<^verbatim>\<open>JSON.parse\<close> returns: \<^verbatim>\<open>null\<close>, a boolean, a number, a string, an array
  or an object.  An object lists its own properties in the order in which
  \<^verbatim>\<open>Object.entries\<close> enumerates them, each name once.  The runners read their
  documents at this type: the interfaces that \<^verbatim>\<open>types.ts\<close> declares for the
  documents of the tools are not checked when the program runs, so a document can
  have any shape.  The numbers of a document are integers, as all numbers of the
  model.  The value of an expression is a \<open>json option\<close>, where \<open>None\<close> is
  \<^verbatim>\<open>undefined\<close>.
\<close>

datatype json =
    JNull
  | JBool bool
  | JNum number
  | JStr string
  | JArr "json list"
  | JObj "(string \<times> json) list"

subsection \<open>Issues, results and the report\<close>

record Issue =
  file' :: string
  line :: number
  column :: "number option"
  severity :: Severity
  message :: string
  rule :: "string option"

text \<open>The entries of the object that \<^verbatim>\<open>getReport\<close> serialises.\<close>

record ReportEntry =
  tool :: string
  success :: bool
  issueCount :: nat
  errors :: nat
  warnings :: nat
  issues :: "Issue list"

record Report =
  totalIssues :: nat
  results :: "ReportEntry list"

record ToolResult =
  tool :: string
  success :: bool
  issues :: "Issue list"
  rawOutput :: string

record RunnerConfig =
  configPath :: "string option"
  filePaths :: "string list"
  workingDirectory :: string

record ExecResult =
  exitCode :: number
  stdout :: string
  stderr :: string

datatype ToolName =
    phpstan | phpmd | php_cs_fixer | eslint | stylelint | editorconfig
  | composer_normalize | typo3_rector

text \<open>The string that the source writes for each member of \<^verbatim>\<open>ToolName\<close>.\<close>

fun tool_id :: "ToolName \<Rightarrow> string" where
  "tool_id phpstan = ''phpstan''"
| "tool_id phpmd = ''phpmd''"
| "tool_id php_cs_fixer = ''php-cs-fixer''"
| "tool_id eslint = ''eslint''"
| "tool_id stylelint = ''stylelint''"
| "tool_id editorconfig = ''editorconfig''"
| "tool_id composer_normalize = ''composer-normalize''"
| "tool_id typo3_rector = ''typo3-rector''"

section \<open>Observable effects\<close>

text \<open>
  Every call that leaves the process (the logging and output functions of
  \<^verbatim>\<open>@actions/core\<close>, \<^verbatim>\<open>exec.exec\<close>, the glob and the cache primitives) is
  recorded, in program order, in a trace of effects.  A function of the source that
  performs effects returns its value together with the trace it produced.
\<close>

datatype AnnotationProperties =
  AnnotationProperties string number "number option"
  \<comment> \<open>file, startLine, startColumn\<close>

datatype OutputValue = OutNum nat | OutStr string

datatype Effect =
    CoreDebug string
  | CoreInfo string
  | CoreWarning string "AnnotationProperties option"
  | CoreError string "AnnotationProperties option"
  | CoreStartGroup string
  | CoreEndGroup
  | CoreSetOutput string OutputValue
  | CoreSetFailed string
  | CoreSaveState string string
  | ExecExec string "string list" string
  | GlobCreate string
  | SummaryWrite "string list list"
  | CacheRestoreCache "string list" string "string list"
  | CacheSaveCache "string list" string

text \<open>Truthiness of a string and of an optional string, as \<^verbatim>\<open>if (s)\<close> tests it.\<close>

definition truthy :: "string \<Rightarrow> bool" where
  "truthy s = (s \<noteq> [])"

definition truthy_opt :: "string option \<Rightarrow> bool" where
  "truthy_opt s = (case s of None \<Rightarrow> False | Some t \<Rightarrow> truthy t)"

text \<open>Decimal rendering of a count inside a template string.\<close>

fun string_of_nat :: "nat \<Rightarrow> string" where
  "string_of_nat n =
     (if n < 10 then [''0123456789'' ! n]
      else string_of_nat (n div 10) @ [''0123456789'' ! (n mod 10)])"

declare string_of_nat.simps [simp del]

section \<open>Reporter (src/reporters/github.ts)\<close>

text \<open>The body of the inner loop of \<^verbatim>\<open>generateAnnotations\<close>: one call of
  \<^verbatim>\<open>core.error\<close> or \<^verbatim>\<open>core.warning\<close> for one issue.\<close>

definition annotate :: "string \<Rightarrow> Issue \<Rightarrow> Effect" where
  "annotate toolName issue =
     (let properties = AnnotationProperties (file' issue) (line issue)
            (case column issue of
               None \<Rightarrow> None
             | Some c \<Rightarrow> if c = 0 then None else Some c);
          msg = ''['' @ toolName
            @ (if truthy_opt (rule issue) then '' - '' @ the (rule issue) else [])
            @ ''] '' @ message issue
      in if severity issue = Error then CoreError msg (Some properties)
         else CoreWarning msg (Some properties))"

definition generateAnnotations :: "ToolResult list \<Rightarrow> Effect list" where
  "generateAnnotations rs =
     concat (map (\<lambda>result. map (annotate (tool result)) (issues result)) rs)"

text \<open>The reduction \<^verbatim>\<open>results.reduce((sum, r) => sum + r.issues.length, 0)\<close>, which
  the reporter and the entry point both compute.\<close>

definition sumIssues :: "ToolResult list \<Rightarrow> nat" where
  "sumIssues rs = foldl (\<lambda>sum r. sum + length (issues r)) 0 rs"

definition reportEntry :: "ToolResult \<Rightarrow> ReportEntry" where
  "reportEntry result =
     \<lparr> ReportEntry.tool = ToolResult.tool result,
       ReportEntry.success = ToolResult.success result,
       issueCount = length (ToolResult.issues result),
       errors = length (filter (\<lambda>i. severity i = Error) (ToolResult.issues result)),
       warnings = length (filter (\<lambda>i. severity i = Warning) (ToolResult.issues result)),
       ReportEntry.issues = ToolResult.issues result \<rparr>"

text \<open>The object that \<^verbatim>\<open>getReport\<close> builds, before it is serialised.\<close>

definition reportObject :: "ToolResult list \<Rightarrow> Report" where
  "reportObject rs = \<lparr> totalIssues = sumIssues rs, results = map reportEntry rs \<rparr>"

text \<open>\<^verbatim>\<open>getReport\<close>: the serialiser \<^verbatim>\<open>JSON.stringify(report, null, 2)\<close> is the
  host's and is taken as a parameter.\<close>

definition getReport :: "(Report \<Rightarrow> string) \<Rightarrow> ToolResult list \<Rightarrow> string" where
  "getReport stringify rs = stringify (reportObject rs)"

section \<open>String functions of the host language\<close>

text \<open>
  The methods of \<^verbatim>\<open>String.prototype\<close> that the source calls, on 8-bit strings.
  White space is what \<^verbatim>\<open>trim\<close> strips and \<^verbatim>\<open>\s\<close> matches (tab, line feed,
  vertical tab, form feed, carriage return, space, no-break space); a line terminator
  is what the regular expression \<^verbatim>\<open>.\<close> does not match.
\<close>

definition is_ws :: "char \<Rightarrow> bool" where
  "is_ws c = (c = CHR 0x09 \<or> c = CHR 0x0A \<or> c = CHR 0x0B \<or> c = CHR 0x0C \<or> c = CHR 0x0D
               \<or> c = CHR 0x20 \<or> c = CHR 0xA0)"

definition is_line_terminator :: "char \<Rightarrow> bool" where
  "is_line_terminator c = (c = CHR 0x0A \<or> c = CHR 0x0D)"

definition is_digit :: "char \<Rightarrow> bool" where
  "is_digit c = (c \<in> set ''0123456789'')"

definition trim :: "string \<Rightarrow> string" where
  "trim s = rev (dropWhile is_ws (rev (dropWhile is_ws s)))"

definition lower_char :: "char \<Rightarrow> char" where
  "lower_char c =
     (let n = (of_char c :: nat)
      in if (65 \<le> n \<and> n \<le> 90) \<or> (192 \<le> n \<and> n \<le> 222 \<and> n \<noteq> 215)
         then char_of (n + 32) else c)"

definition toLowerCase :: "string \<Rightarrow> string" where
  "toLowerCase s = map lower_char s"

text \<open>\<^verbatim>\<open>s.includes(sub)\<close>\<close>

fun includes_str :: "string \<Rightarrow> string \<Rightarrow> bool" where
  "includes_str sub [] = (sub = [])"
| "includes_str sub (c # cs) = (prefix sub (c # cs) \<or> includes_str sub cs)"

text \<open>\<^verbatim>\<open>s.split(sep)\<close> for a separator of one character: never the empty list.\<close>

fun split_on :: "char \<Rightarrow> string \<Rightarrow> string list" where
  "split_on sep [] = [[]]"
| "split_on sep (c # cs) =
     (if c = sep then [] # split_on sep cs
      else (case split_on sep cs of
              [] \<Rightarrow> [[c]]
            | w # ws \<Rightarrow> (c # w) # ws))"

text \<open>\<^verbatim>\<open>xs.join(sep)\<close>\<close>

fun join :: "string \<Rightarrow> string list \<Rightarrow> string" where
  "join sep [] = []"
| "join sep [x] = x"
| "join sep (x # y # ys) = x @ sep @ join sep (y # ys)"

text \<open>\<^verbatim>\<open>s.replace(pat, '')\<close> for a string pattern: the first occurrence is removed.\<close>

fun remove_first :: "string \<Rightarrow> string \<Rightarrow> string" where
  "remove_first pat [] = []"
| "remove_first pat (c # cs) =
     (if prefix pat (c # cs) then drop (length pat) (c # cs)
      else c # remove_first pat cs)"

text \<open>\<^verbatim>\<open>parseInt(ds, 10)\<close> on a string of decimal digits.\<close>

definition digit_value :: "char \<Rightarrow> int" where
  "digit_value c = int (of_char c) - 48"

definition parseInt :: "string \<Rightarrow> number" where
  "parseInt ds = foldl (\<lambda>n c. 10 * n + digit_value c) 0 ds"

text \<open>\<^verbatim>\<open>s || d\<close> on an optional string.\<close>

definition or_else :: "string option \<Rightarrow> string \<Rightarrow> string" where
  "or_else s d = (if truthy_opt s then the s else d)"

section \<open>The host\<close>

text \<open>
  What the program takes from outside its own source is a parameter: the external
  processes, the file system, the path functions and the platform of Node, the glob
  and cache primitives of the Actions toolkit, \<^verbatim>\<open>JSON.parse\<close> and
  \<^verbatim>\<open>JSON.stringify\<close>, the \<^verbatim>\<open>TypeError\<close> objects that the engine throws, and the
  conversion of a string to a number.  A call that can throw returns \<open>Inl\<close> of the
  error thrown.
\<close>

text \<open>An \<^verbatim>\<open>Error\<close> object: its name and its message.  \<open>error_string\<close> is
  \<^verbatim>\<open>String(error)\<close>, which a template string writes for \<^verbatim>\<open>${error}\<close>.\<close>

datatype Thrown = Thrown (error_name: string) (error_message: string)

definition error_string :: "Thrown \<Rightarrow> string" where
  "error_string e =
     (if error_name e = [] then error_message e
      else if error_message e = [] then error_name e
      else error_name e @ '': '' @ error_message e)"

text \<open>
  The operations of the source that throw a \<^verbatim>\<open>TypeError\<close>: reading a property of
  \<^verbatim>\<open>null\<close>, iterating a value that is not iterable, calling a value that is no
  function, and converting to a string or to a number an object that has no
  primitive value.  The string names the property that is read, or is the text of the
  expression.
\<close>

datatype TypeError =
    ReadOfNull string
  | NotIterable string
  | NotAFunction string
  | NoPrimitive

record Host =
  exec_exec :: "string \<Rightarrow> string list \<Rightarrow> string \<Rightarrow> Thrown + (number \<times> string \<times> string)"
  \<comment> \<open>\<^verbatim>\<open>exec.exec(command, args, {cwd, ignoreReturnCode})\<close>: exit code, raw stdout, raw stderr\<close>
  process_cwd :: string
  process_platform :: string
  dirname :: string
  path_resolve :: "string \<Rightarrow> string \<Rightarrow> string"
  path_join :: "string list \<Rightarrow> string"
  fs_exists :: "string \<Rightarrow> bool"
  fs_readFile :: "string \<Rightarrow> Thrown + string"
  sha256_hex :: "string \<Rightarrow> string"
  glob_files :: "string \<Rightarrow> Thrown + string list"
  cache_restoreCache :: "string list \<Rightarrow> string \<Rightarrow> string list \<Rightarrow> Thrown + string option"
  cache_saveCache :: "string list \<Rightarrow> string \<Rightarrow> Thrown option"
  \<comment> \<open>\<open>Some e\<close>: the save threw \<open>e\<close>\<close>
  core_getState :: "string \<Rightarrow> string"
  summary_write :: "string list list \<Rightarrow> Thrown option"
  \<comment> \<open>\<open>Some e\<close>: writing the job summary threw \<open>e\<close>\<close>
  JSON_stringify :: "Report \<Rightarrow> string"
  JSON_parse :: "string \<Rightarrow> Thrown + json"
  type_error :: "TypeError \<Rightarrow> Thrown"
  \<comment> \<open>the error object that the engine throws\<close>
  Number_le :: "string \<Rightarrow> number \<Rightarrow> bool"
  \<comment> \<open>\<^verbatim>\<open>Number(s) <= n\<close>\<close>
  Number_gt :: "string \<Rightarrow> number \<Rightarrow> bool"
  \<comment> \<open>\<^verbatim>\<open>Number(s) > n\<close>\<close>

text \<open>A computation that can throw and that leaves a trace.\<close>

type_synonym 'a io = "(Thrown + 'a) \<times> Effect list"

section \<open>Expressions of the host language on a parsed document\<close>

text \<open>
  The expressions that the runners evaluate on a document and on its parts, for
  every value that \<^verbatim>\<open>JSON.parse\<close> can return.  \<open>truthy_json\<close> is the test of
  \<^verbatim>\<open>if (v)\<close> and of \<^verbatim>\<open>v || d\<close>.
\<close>

definition truthy_json :: "json option \<Rightarrow> bool" where
  "truthy_json v =
     (case v of
        None \<Rightarrow> False
      | Some JNull \<Rightarrow> False
      | Some (JBool b) \<Rightarrow> b
      | Some (JNum n) \<Rightarrow> n \<noteq> 0
      | Some (JStr s) \<Rightarrow> s \<noteq> []
      | Some (JArr xs) \<Rightarrow> True
      | Some (JObj kv) \<Rightarrow> True)"

text \<open>
  \<^verbatim>\<open>v.name\<close>.  The names that the runners read (\<^verbatim>\<open>files\<close>, \<^verbatim>\<open>messages\<close>,
  \<^verbatim>\<open>line\<close>, ...) are no properties of the prototypes of objects, arrays, strings,
  numbers and booleans; so the value is the own property of an object, and
  \<^verbatim>\<open>undefined\<close> for an object without it and for every other value but \<^verbatim>\<open>null\<close>,
  on which the read throws.  \<open>own\<close> is the read on a value that is known not to be
  \<^verbatim>\<open>null\<close>.
\<close>

fun own :: "string \<Rightarrow> json \<Rightarrow> json option" where
  "own name (JObj kv) = map_of kv name"
| "own name v = None"

definition read_property :: "Host \<Rightarrow> string \<Rightarrow> json \<Rightarrow> Thrown + json option" where
  "read_property h name v =
     (if v = JNull then Inl (type_error h (ReadOfNull name)) else Inr (own name v))"

text \<open>\<^verbatim>\<open>v.length\<close> on a value that is not \<^verbatim>\<open>null\<close>: arrays and strings have one.\<close>

fun length_of :: "json \<Rightarrow> json option" where
  "length_of (JArr xs) = Some (JNum (int (length xs)))"
| "length_of (JStr s) = Some (JNum (int (length s)))"
| "length_of v = own ''length'' v"

text \<open>The values that \<^verbatim>\<open>for (const x of v)\<close> binds \<open>x\<close> to: the elements of an array,
  the characters of a string; no other value of a document is iterable.\<close>

fun iterate :: "Host \<Rightarrow> string \<Rightarrow> json \<Rightarrow> Thrown + json list" where
  "iterate h expr (JArr xs) = Inr xs"
| "iterate h expr (JStr s) = Inr (map (\<lambda>c. JStr [c]) s)"
| "iterate h expr v = Inl (type_error h (NotIterable expr))"

text \<open>\<^verbatim>\<open>Object.entries(v)\<close> on a value that is not \<^verbatim>\<open>null\<close>: the own properties of
  an object, the indices of an array or of a string with their elements, and nothing
  for a number or a boolean.\<close>

fun entries_of :: "json \<Rightarrow> (string \<times> json) list" where
  "entries_of (JObj kv) = kv"
| "entries_of (JArr xs) = zip (map string_of_nat [0 ..< length xs]) xs"
| "entries_of (JStr s) = zip (map string_of_nat [0 ..< length s]) (map (\<lambda>c. JStr [c]) s)"
| "entries_of v = []"

text \<open>
  \<^verbatim>\<open>String(v)\<close>, which a template string writes for \<^verbatim>\<open>${v}\<close>.  An array is
  written as its elements, joined with commas, where \<^verbatim>\<open>null\<close> is the empty string.
  An object is written by the \<^verbatim>\<open>toString\<close> that it inherits, unless the document
  gave it a property of that name: that property is no function, and the conversion
  throws.  \<open>first_error\<close> is the evaluation from left to right: the first error, or
  all the values.
\<close>

definition show_number :: "number \<Rightarrow> string" where
  "show_number n =
     (if n < 0 then ''-'' @ string_of_nat (nat (- n)) else string_of_nat (nat n))"

fun first_error :: "('e + 'a) list \<Rightarrow> 'e + 'a list" where
  "first_error [] = Inr []"
| "first_error (x # xs) =
     (case x of
        Inl e \<Rightarrow> Inl e
      | Inr v \<Rightarrow> (case first_error xs of Inl e \<Rightarrow> Inl e | Inr vs \<Rightarrow> Inr (v # vs)))"

fun to_string :: "Host \<Rightarrow> json \<Rightarrow> Thrown + string" where
  "to_string h JNull = Inr ''null''"
| "to_string h (JBool b) = Inr (if b then ''true'' else ''false'')"
| "to_string h (JNum n) = Inr (show_number n)"
| "to_string h (JStr s) = Inr s"
| "to_string h (JArr xs) =
     map_sum id (join '','')
       (first_error (map (\<lambda>x. if x = JNull then Inr [] else to_string h x) xs))"
| "to_string h (JObj kv) =
     (if map_of kv ''toString'' \<noteq> None then Inl (type_error h NoPrimitive)
      else Inr ''[object Object]'')"

text \<open>\<^verbatim>\<open>xs.join(sep)\<close> on an array of a document.\<close>

definition array_join :: "Host \<Rightarrow> string \<Rightarrow> json list \<Rightarrow> Thrown + string" where
  "array_join h sep xs =
     map_sum id (join sep)
       (first_error (map (\<lambda>x. if x = JNull then Inr [] else to_string h x) xs))"

text \<open>
  The comparisons \<^verbatim>\<open>v <= n\<close> and \<^verbatim>\<open>v > n\<close> with a number \<open>n\<close>.  \<^verbatim>\<open>undefined\<close>
  converts to \<^verbatim>\<open>NaN\<close>, for which every comparison is false; \<^verbatim>\<open>null\<close> to 0,
  \<^verbatim>\<open>false\<close> to 0 and \<^verbatim>\<open>true\<close> to 1; a string to the number that the host reads
  in it; an array to the number of the string that it is written as; an object to
  \<^verbatim>\<open>NaN\<close>, or the conversion throws as above.
\<close>

definition compare_js ::
  "Host \<Rightarrow> (number \<Rightarrow> bool) \<Rightarrow> (string \<Rightarrow> bool) \<Rightarrow> json option \<Rightarrow> Thrown + bool" where
  "compare_js h on_number on_string v =
     (case v of
        None \<Rightarrow> Inr False
      | Some JNull \<Rightarrow> Inr (on_number 0)
      | Some (JBool b) \<Rightarrow> Inr (on_number (if b then 1 else 0))
      | Some (JNum n) \<Rightarrow> Inr (on_number n)
      | Some (JStr s) \<Rightarrow> Inr (on_string s)
      | Some (JArr xs) \<Rightarrow> map_sum id on_string (array_join h '','' xs)
      | Some (JObj kv) \<Rightarrow>
          if map_of kv ''toString'' \<noteq> None then Inl (type_error h NoPrimitive)
          else Inr False)"

definition le_js :: "Host \<Rightarrow> json option \<Rightarrow> number \<Rightarrow> Thrown + bool" where
  "le_js h v n = compare_js h (\<lambda>x. x \<le> n) (\<lambda>s. Number_le h s n) v"

definition gt_js :: "Host \<Rightarrow> json option \<Rightarrow> number \<Rightarrow> Thrown + bool" where
  "gt_js h v n = compare_js h (\<lambda>x. x > n) (\<lambda>s. Number_gt h s n) v"

text \<open>
  The fields of an issue have the types of the interface \<^verbatim>\<open>Issue\<close>.  The source
  stores what the document holds; the functions below read a value at the type of the
  field that it is stored in.  Where the document holds a value of another type (or
  nothing, for the file and the message), the issue of the model has the empty
  string, the line 1, no column or no rule in that field, and the issue of the source
  has the value of the document; what the reporter does with such a value is outside
  the model.  That an issue is pushed, its place among the issues and its severity do
  not depend on these fields.
\<close>

definition as_string :: "json option \<Rightarrow> string" where
  "as_string v = (case v of Some (JStr s) \<Rightarrow> s | _ \<Rightarrow> [])"

definition as_string_opt :: "json option \<Rightarrow> string option" where
  "as_string_opt v = (case v of Some (JStr s) \<Rightarrow> Some s | _ \<Rightarrow> None)"

definition as_number_opt :: "json option \<Rightarrow> number option" where
  "as_number_opt v = (case v of Some (JNum n) \<Rightarrow> Some n | _ \<Rightarrow> None)"

text \<open>\<^verbatim>\<open>v || 1\<close> in the line of an issue, and \<^verbatim>\<open>v || d\<close> in its rule.\<close>

definition line_or_one :: "json option \<Rightarrow> number" where
  "line_or_one v = (case v of Some (JNum n) \<Rightarrow> if n = 0 then 1 else n | _ \<Rightarrow> 1)"

definition rule_or :: "json option \<Rightarrow> string \<Rightarrow> string option" where
  "rule_or v d = (if truthy_json v then as_string_opt v else Some d)"

section \<open>Command executor (src/utils/exec.ts)\<close>

definition executeCommand :: "Host \<Rightarrow> string \<Rightarrow> string list \<Rightarrow> string \<Rightarrow> ExecResult io" where
  "executeCommand h command args cwd =
     (let dir = (if truthy cwd then cwd else process_cwd h)
      in (case exec_exec h command args dir of
            Inl e \<Rightarrow> Inl e
          | Inr (code, out, err) \<Rightarrow>
              Inr \<lparr> exitCode = code, stdout = trim out, stderr = trim err \<rparr>,
          [ExecExec command args dir]))"

section \<open>Tool runners (src/runners)\<close>

text \<open>
  Each \<^verbatim>\<open>run\<close> builds its arguments, executes the tool, extracts the issues and returns
  the result.  \<open>finish_run\<close> is the part that all eight share: the \<^verbatim>\<open>core.info\<close> line
  before the command, the command, and the returned object
  \<^verbatim>\<open>{tool, success: result.exitCode === 0, issues, rawOutput: result.stdout + result.stderr}\<close>.
  The extraction gets the result of the command and gives the issues with the warnings
  that it logged.
\<close>

definition finish_run ::
  "Host \<Rightarrow> string \<Rightarrow> string \<Rightarrow> string \<Rightarrow> string list \<Rightarrow> string
     \<Rightarrow> (ExecResult \<Rightarrow> Issue list \<times> Effect list) \<Rightarrow> ToolResult io" where
  "finish_run h banner toolName command args cwd extract =
     (case executeCommand h command args cwd of
        (Inl e, t) \<Rightarrow> (Inl e, CoreInfo banner # t)
      | (Inr r, t) \<Rightarrow>
          (case extract r of
             (found, w) \<Rightarrow>
               (Inr \<lparr> tool = toolName, success = (exitCode r = 0), issues = found,
                      rawOutput = stdout r @ stderr r \<rparr>,
                CoreInfo banner # t @ w)))"

text \<open>
  The \<^verbatim>\<open>try\<close> block of a runner that reads JSON holds the call of \<^verbatim>\<open>JSON.parse\<close>
  and the loops that push the issues; the array of the issues is declared before it.
  So what the block has done when it ends is the error that ended it, if one was
  thrown, and the issues that were pushed until then.  \<open>for_each\<close> is a loop whose
  body pushes issues and can throw.
\<close>

type_synonym collected = "Thrown option \<times> Issue list"

fun for_each :: "('a \<Rightarrow> collected) \<Rightarrow> 'a list \<Rightarrow> collected" where
  "for_each body [] = (None, [])"
| "for_each body (x # xs) =
     (case body x of
        (Some e, pushed) \<Rightarrow> (Some e, pushed)
      | (None, pushed) \<Rightarrow>
          (case for_each body xs of (r, later) \<Rightarrow> (r, pushed @ later)))"

definition try_block :: "Host \<Rightarrow> (json \<Rightarrow> collected) \<Rightarrow> string \<Rightarrow> collected" where
  "try_block h collect s =
     (case JSON_parse h s of
        Inl e \<Rightarrow> (Some e, [])
      | Inr output \<Rightarrow> collect output)"

text \<open>The shape \<^verbatim>\<open>if (result.stdout) { try { ... } catch (error) { core.warning(...) } }\<close>
  of the runners that read JSON.\<close>

definition parse_guarded ::
  "Host \<Rightarrow> string \<Rightarrow> (json \<Rightarrow> collected) \<Rightarrow> ExecResult \<Rightarrow> Issue list \<times> Effect list" where
  "parse_guarded h toolName collect r =
     (if truthy (stdout r) then
        (case try_block h collect (stdout r) of
           (Some e, pushed) \<Rightarrow>
             (pushed,
              [CoreWarning (''Failed to parse '' @ toolName @ '' output: '' @ error_string e) None])
         | (None, pushed) \<Rightarrow> (pushed, []))
      else ([], []))"

text \<open>The arguments \<^verbatim>\<open>flag, config.configPath\<close> that are pushed when a config is set,
  and the file paths, with a fallback when there are none.\<close>

definition config_args :: "string list \<Rightarrow> RunnerConfig \<Rightarrow> string list" where
  "config_args flag config =
     (if truthy_opt (configPath config) then flag @ [the (configPath config)] else [])"

definition path_args :: "string list \<Rightarrow> RunnerConfig \<Rightarrow> string list" where
  "path_args fallback config =
     (if length (filePaths config) > 0 then filePaths config else fallback)"

subsection \<open>PHPStan (src/runners/phpstan.ts)\<close>

text \<open>The body of the inner loop, the body of the outer loop, and the statements of
  the \<^verbatim>\<open>try\<close> block after \<^verbatim>\<open>JSON.parse\<close>.\<close>

definition PHPStan_message :: "Host \<Rightarrow> string \<Rightarrow> json \<Rightarrow> collected" where
  "PHPStan_message h f msg =
     (case read_property h ''line'' msg of
        Inl e \<Rightarrow> (Some e, [])
      | Inr ln \<Rightarrow>
          (None, [\<lparr> file' = f,
                    line = line_or_one ln,
                    column = as_number_opt (own ''column'' msg),
                    severity = Error,
                    message = as_string (own ''message'' msg),
                    rule = Some ''phpstan'' \<rparr>]))"

definition PHPStan_file :: "Host \<Rightarrow> string \<times> json \<Rightarrow> collected" where
  "PHPStan_file h entry =
     (case entry of
        (f, fileData) \<Rightarrow>
          (case read_property h ''messages'' fileData of
             Inl e \<Rightarrow> (Some e, [])
           | Inr ms \<Rightarrow>
               if truthy_json ms then
                 (case iterate h ''fileData.messages'' (the ms) of
                    Inl e \<Rightarrow> (Some e, [])
                  | Inr items \<Rightarrow> for_each (PHPStan_message h f) items)
               else (None, [])))"

definition PHPStan_collect :: "Host \<Rightarrow> json \<Rightarrow> collected" where
  "PHPStan_collect h output =
     (case read_property h ''files'' output of
        Inl e \<Rightarrow> (Some e, [])
      | Inr fs \<Rightarrow>
          if truthy_json fs then for_each (PHPStan_file h) (entries_of (the fs))
          else (None, []))"

definition PHPStanRunner_run :: "Host \<Rightarrow> RunnerConfig \<Rightarrow> ToolResult io" where
  "PHPStanRunner_run h config =
     (let args = [''analyze'', ''--error-format=json'', ''--no-progress'']
                 @ config_args [''-c''] config @ path_args [] config
      in finish_run h ''Running PHPStan...'' ''PHPStan'' ''vendor/bin/phpstan'' args
           (workingDirectory config)
           (parse_guarded h ''PHPStan'' (PHPStan_collect h)))"

subsection \<open>PHPMD (second part of src/runners/eslint.ts)\<close>

definition PHPMD_violation :: "Host \<Rightarrow> json \<Rightarrow> json \<Rightarrow> collected" where
  "PHPMD_violation h fileData violation =
     (case read_property h ''beginLine'' violation of
        Inl e \<Rightarrow> (Some e, [])
      | Inr ln \<Rightarrow>
          (case le_js h (own ''priority'' violation) 3 of
             Inl e \<Rightarrow> (Some e, [])
           | Inr high \<Rightarrow>
               (None, [\<lparr> file' = as_string (own ''file'' fileData),
                         line = line_or_one ln,
                         column = as_number_opt (own ''beginColumn'' violation),
                         severity = (if high then Error else Warning),
                         message = as_string (own ''description'' violation),
                         rule = as_string_opt (own ''rule'' violation) \<rparr>])))"

definition PHPMD_file :: "Host \<Rightarrow> json \<Rightarrow> collected" where
  "PHPMD_file h fileData =
     (case read_property h ''violations'' fileData of
        Inl e \<Rightarrow> (Some e, [])
      | Inr vs \<Rightarrow>
          if truthy_json vs then
            (case iterate h ''fileData.violations'' (the vs) of
               Inl e \<Rightarrow> (Some e, [])
             | Inr items \<Rightarrow> for_each (PHPMD_violation h fileData) items)
          else (None, []))"

definition PHPMD_collect :: "Host \<Rightarrow> json \<Rightarrow> collected" where
  "PHPMD_collect h output =
     (case read_property h ''files'' output of
        Inl e \<Rightarrow> (Some e, [])
      | Inr fs \<Rightarrow>
          if truthy_json fs then
            (case iterate h ''output.files'' (the fs) of
               Inl e \<Rightarrow> (Some e, [])
             | Inr items \<Rightarrow> for_each (PHPMD_file h) items)
          else (None, []))"

definition PHPMDRunner_run :: "Host \<Rightarrow> RunnerConfig \<Rightarrow> ToolResult io" where
  "PHPMDRunner_run h config =
     (let paths = (if length (filePaths config) > 0 then join '','' (filePaths config) else ''.'');
          args = [paths, ''json'']
                 @ (if truthy_opt (configPath config) then [the (configPath config)]
                    else [''cleancode,codesize,controversial,design,naming,unusedcode''])
      in finish_run h ''Running PHPMD...'' ''PHPMD'' ''vendor/bin/phpmd'' args
           (workingDirectory config)
           (parse_guarded h ''PHPMD'' (PHPMD_collect h)))"

subsection \<open>PHP-CS-Fixer (src/runners/php-cs-fixer.ts)\<close>

text \<open>
  \<^verbatim>\<open>fileData.appliedFixers?.join(', ')\<close>: \<^verbatim>\<open>undefined\<close> when the property is
  \<^verbatim>\<open>undefined\<close> or \<^verbatim>\<open>null\<close>, the joined elements when it is an array; no other
  value has a \<^verbatim>\<open>join\<close> that is a function.
\<close>

definition joined_fixers :: "Host \<Rightarrow> json option \<Rightarrow> Thrown + string option" where
  "joined_fixers h v =
     (case v of
        None \<Rightarrow> Inr None
      | Some JNull \<Rightarrow> Inr None
      | Some (JArr xs) \<Rightarrow> map_sum id Some (array_join h '', '' xs)
      | Some _ \<Rightarrow> Inl (type_error h (NotAFunction ''fileData.appliedFixers?.join'')))"

definition PHPCSFixer_file :: "Host \<Rightarrow> json \<Rightarrow> collected" where
  "PHPCSFixer_file h fileData =
     (case read_property h ''diff'' fileData of
        Inl e \<Rightarrow> (Some e, [])
      | Inr d \<Rightarrow>
          if truthy_json d then
            (case joined_fixers h (own ''appliedFixers'' fileData) of
               Inl e \<Rightarrow> (Some e, [])
             | Inr fixers \<Rightarrow>
                 (None, [\<lparr> file' = as_string (own ''name'' fileData),
                           line = 1,
                           column = None,
                           severity = Warning,
                           message = ''Code style issues found. ''
                             @ or_else fixers ''See diff for details'',
                           rule = Some ''php-cs-fixer'' \<rparr>]))
          else (None, []))"

definition PHPCSFixer_collect :: "Host \<Rightarrow> json \<Rightarrow> collected" where
  "PHPCSFixer_collect h output =
     (case read_property h ''files'' output of
        Inl e \<Rightarrow> (Some e, [])
      | Inr fs \<Rightarrow>
          if truthy_json fs then
            (case iterate h ''output.files'' (the fs) of
               Inl e \<Rightarrow> (Some e, [])
             | Inr items \<Rightarrow> for_each (PHPCSFixer_file h) items)
          else (None, []))"

definition PHPCSFixerRunner_run :: "Host \<Rightarrow> RunnerConfig \<Rightarrow> ToolResult io" where
  "PHPCSFixerRunner_run h config =
     (let args = [''fix'', ''--dry-run'', ''--format=json'', ''--diff'']
                 @ (if truthy_opt (configPath config)
                    then [''--config='' @ the (configPath config)] else [])
                 @ path_args [] config
      in finish_run h ''Running PHP-CS-Fixer...'' ''PHP-CS-Fixer'' ''vendor/bin/php-cs-fixer'' args
           (workingDirectory config)
           (parse_guarded h ''PHP-CS-Fixer'' (PHPCSFixer_collect h)))"

subsection \<open>ESLint (src/runners/eslint.ts)\<close>

definition ESLint_message :: "Host \<Rightarrow> json \<Rightarrow> json \<Rightarrow> collected" where
  "ESLint_message h fileData msg =
     (case read_property h ''line'' msg of
        Inl e \<Rightarrow> (Some e, [])
      | Inr ln \<Rightarrow>
          (None, [\<lparr> file' = as_string (own ''filePath'' fileData),
                    line = line_or_one ln,
                    column = as_number_opt (own ''column'' msg),
                    severity = (if own ''severity'' msg = Some (JNum 2) then Error else Warning),
                    message = as_string (own ''message'' msg),
                    rule = as_string_opt (own ''ruleId'' msg) \<rparr>]))"

definition ESLint_file :: "Host \<Rightarrow> json \<Rightarrow> collected" where
  "ESLint_file h fileData =
     (case read_property h ''messages'' fileData of
        Inl e \<Rightarrow> (Some e, [])
      | Inr ms \<Rightarrow>
          if truthy_json ms then
            (case iterate h ''fileData.messages'' (the ms) of
               Inl e \<Rightarrow> (Some e, [])
             | Inr items \<Rightarrow> for_each (ESLint_message h fileData) items)
          else (None, []))"

text \<open>\<^verbatim>\<open>if (Array.isArray(output))\<close> and the loop over the array.\<close>

definition ESLint_collect :: "Host \<Rightarrow> json \<Rightarrow> collected" where
  "ESLint_collect h output =
     (case output of
        JArr fs \<Rightarrow> for_each (ESLint_file h) fs
      | _ \<Rightarrow> (None, []))"

definition ESLintRunner_run :: "Host \<Rightarrow> RunnerConfig \<Rightarrow> ToolResult io" where
  "ESLintRunner_run h config =
     (let args = [''--format=json''] @ config_args [''-c''] config @ path_args [''.''] config
      in finish_run h ''Running ESLint...'' ''ESLint'' ''npx'' (''eslint'' # args)
           (workingDirectory config)
           (parse_guarded h ''ESLint'' (ESLint_collect h)))"

subsection \<open>Stylelint (first part of \<^verbatim>\<open>src/unnamed/part_001\<close>)\<close>

definition Stylelint_warning :: "Host \<Rightarrow> json \<Rightarrow> json \<Rightarrow> collected" where
  "Stylelint_warning h fileData warning =
     (case read_property h ''line'' warning of
        Inl e \<Rightarrow> (Some e, [])
      | Inr ln \<Rightarrow>
          (None, [\<lparr> file' = as_string (own ''source'' fileData),
                    line = line_or_one ln,
                    column = as_number_opt (own ''column'' warning),
                    severity = (if own ''severity'' warning = Some (JStr ''error'')
                                then Error else Warning),
                    message = as_string (own ''text'' warning),
                    rule = as_string_opt (own ''rule'' warning) \<rparr>]))"

definition Stylelint_file :: "Host \<Rightarrow> json \<Rightarrow> collected" where
  "Stylelint_file h fileData =
     (case read_property h ''warnings'' fileData of
        Inl e \<Rightarrow> (Some e, [])
      | Inr ws \<Rightarrow>
          if truthy_json ws then
            (case iterate h ''fileData.warnings'' (the ws) of
               Inl e \<Rightarrow> (Some e, [])
             | Inr items \<Rightarrow> for_each (Stylelint_warning h fileData) items)
          else (None, []))"

definition Stylelint_collect :: "Host \<Rightarrow> json \<Rightarrow> collected" where
  "Stylelint_collect h output =
     (case output of
        JArr fs \<Rightarrow> for_each (Stylelint_file h) fs
      | _ \<Rightarrow> (None, []))"

definition StylelintRunner_run :: "Host \<Rightarrow> RunnerConfig \<Rightarrow> ToolResult io" where
  "StylelintRunner_run h config =
     (let args = [''--formatter=json''] @ config_args [''--config''] config
                 @ path_args [''**/*.{css,scss}''] config
      in finish_run h ''Running Stylelint...'' ''Stylelint'' ''npx'' (''stylelint'' # args)
           (workingDirectory config)
           (parse_guarded h ''Stylelint'' (Stylelint_collect h)))"

subsection \<open>Composer Normalize (second part of src/runners/php-cs-fixer.ts)\<close>

definition ComposerNormalize_issue :: "string \<Rightarrow> string \<Rightarrow> Issue" where
  "ComposerNormalize_issue composerPath msg =
     \<lparr> file' = composerPath, line = 1, column = None, severity = Warning,
       message = msg, rule = Some ''composer-normalize'' \<rparr>"

definition ComposerNormalize_issues :: "RunnerConfig \<Rightarrow> ExecResult \<Rightarrow> Issue list" where
  "ComposerNormalize_issues config r =
     (if exitCode r \<noteq> 0 then
        (let composerPath = or_else (configPath config) ''composer.json''
         in if truthy (stdout r) \<or> truthy (stderr r) then
              (let output = stdout r @ stderr r
               in (if includes_str ''is not normalized'' output
                      \<or> includes_str ''Successfully normalized'' output
                   then [ComposerNormalize_issue composerPath
                     ''composer.json is not normalized. Run \"composer normalize\" to fix.'']
                   else [])
                @ (if includes_str ''--- original'' output
                      \<or> includes_str ''+++ normalized'' output
                   then [ComposerNormalize_issue composerPath
                     ''composer.json has formatting or ordering issues. See diff for details.'']
                   else []))
            else [ComposerNormalize_issue composerPath ''composer.json requires normalization''])
      else [])"

definition ComposerNormalizeRunner_run :: "Host \<Rightarrow> RunnerConfig \<Rightarrow> ToolResult io" where
  "ComposerNormalizeRunner_run h config =
     (let args = [''normalize'', ''--dry-run''] @ config_args [] config
      in finish_run h ''Running Composer Normalize...'' ''Composer Normalize'' ''composer'' args
           (workingDirectory config)
           (\<lambda>r. (ComposerNormalize_issues config r, [])))"

subsection \<open>EditorConfig (\<^verbatim>\<open>src/unnamed/part_002\<close>)\<close>

text \<open>
  The regular expression \<^verbatim>\<open>/^(.+?):(\d+):\s*(.+)$/\<close>.  \<open>lazyA pre rest\<close> tries the
  first group at \<open>pre\<close> and, where the rest of the pattern does not match, with one
  more character.  After the colon the digits are all the digits there (the next
  character has to be a colon), and the last group is what follows the white space up
  to the end, with no line terminator in it; when only white space follows the colon,
  the last group is its last character.
\<close>

definition tailA :: "string \<Rightarrow> string option" where
  "tailA r =
     (let m = dropWhile is_ws r
      in if m \<noteq> [] then
           (if list_all (\<lambda>c. \<not> is_line_terminator c) m then Some m else None)
         else if r \<noteq> [] \<and> \<not> is_line_terminator (last r) then Some [last r]
         else None)"

definition afterColonA :: "string \<Rightarrow> (string \<times> string) option" where
  "afterColonA r =
     (let ds = takeWhile is_digit r
      in if ds \<noteq> [] then
           (case dropWhile is_digit r of
              [] \<Rightarrow> None
            | c # r2 \<Rightarrow>
                if c = CHR '':'' then
                  (case tailA r2 of None \<Rightarrow> None | Some m \<Rightarrow> Some (ds, m))
                else None)
         else None)"

fun lazyA :: "string \<Rightarrow> string \<Rightarrow> (string \<times> string \<times> string) option" where
  "lazyA pre [] = None"
| "lazyA pre (c # cs) =
     (case (if pre \<noteq> [] \<and> c = CHR '':'' then afterColonA cs else None) of
        Some (ds, m) \<Rightarrow> Some (pre, ds, m)
      | None \<Rightarrow> if is_line_terminator c then None else lazyA (pre @ [c]) cs)"

text \<open>
  The regular expression \<^verbatim>\<open>/(.+?\.(php|js|ts|css|scss|html|json|yaml|yml))/\<close>: the
  leftmost start, the shortest first part, the first alternative that fits.
\<close>

definition ext_at :: "string \<Rightarrow> string option" where
  "ext_at r = find (\<lambda>e. prefix e r)
     [''php'', ''js'', ''ts'', ''css'', ''scss'', ''html'', ''json'', ''yaml'', ''yml'']"

fun lazyB :: "string \<Rightarrow> string \<Rightarrow> string option" where
  "lazyB pre [] = None"
| "lazyB pre (c # cs) =
     (case (if pre \<noteq> [] \<and> c = CHR ''.'' then ext_at cs else None) of
        Some e \<Rightarrow> Some (pre @ ''.'' @ e)
      | None \<Rightarrow> if is_line_terminator c then None else lazyB (pre @ [c]) cs)"

fun matchB :: "string \<Rightarrow> string option" where
  "matchB [] = None"
| "matchB (c # cs) =
     (case lazyB [] (c # cs) of
        Some m \<Rightarrow> Some m
      | None \<Rightarrow> matchB cs)"

text \<open>
  \<^verbatim>\<open>line.includes(...)\<close> of the cross mark that the source looks for: the mark is
  outside the 8-bit characters, so no line of the model holds it.
\<close>

definition has_cross_mark :: "string \<Rightarrow> bool" where
  "has_cross_mark ln = False"

definition EditorConfig_line :: "string \<Rightarrow> Issue list" where
  "EditorConfig_line ln =
     (case lazyA [] ln of
        Some (f, ds, m) \<Rightarrow>
          [\<lparr> file' = f, line = parseInt ds, column = None, severity = Warning,
             message = m, rule = Some ''editorconfig'' \<rparr>]
      | None \<Rightarrow>
          if has_cross_mark ln \<or> includes_str ''error'' (toLowerCase ln) then
            (case matchB ln of
               Some f \<Rightarrow>
                 [\<lparr> file' = f, line = 1, column = None, severity = Warning,
                    message = trim ln, rule = Some ''editorconfig'' \<rparr>]
             | None \<Rightarrow> [])
          else [])"

definition EditorConfig_issues :: "ExecResult \<Rightarrow> Issue list" where
  "EditorConfig_issues r =
     (if truthy (stdout r) \<or> truthy (stderr r) then
        concat (map EditorConfig_line (split_on CHR 0x0A (stdout r @ stderr r)))
      else [])"

definition EditorConfigRunner_run :: "Host \<Rightarrow> RunnerConfig \<Rightarrow> ToolResult io" where
  "EditorConfigRunner_run h config =
     (let args = [''check''] @ path_args [] config
      in finish_run h ''Running EditorConfig CLI...'' ''EditorConfig''
           ''vendor/bin/editorconfig-cli'' args (workingDirectory config)
           (\<lambda>r. (EditorConfig_issues r, [])))"

subsection \<open>TYPO3 Rector (second part of \<^verbatim>\<open>src/unnamed/part_001\<close>)\<close>

text \<open>The body of the loop over the diffs of a file, the body of the loop over the
  files, and the statements of the \<^verbatim>\<open>try\<close> block after \<^verbatim>\<open>JSON.parse\<close>.\<close>

definition Rector_diff :: "Host \<Rightarrow> json \<Rightarrow> json \<Rightarrow> collected" where
  "Rector_diff h fileDiff diff =
     (case read_property h ''message'' diff of
        Inl e \<Rightarrow> (Some e, [])
      | Inr m \<Rightarrow>
          (case (if truthy_json m then to_string h (the m) else Inr ''Code can be refactored'') of
             Inl e \<Rightarrow> (Some e, [])
           | Inr txt \<Rightarrow>
               (None, [\<lparr> file' = as_string (own ''file'' fileDiff),
                         line = 1,
                         column = None,
                         severity = Warning,
                         message = ''Rector suggests changes: '' @ txt,
                         rule = rule_or (own ''rector_class'' diff) ''typo3-rector'' \<rparr>])))"

definition Rector_file :: "Host \<Rightarrow> json \<Rightarrow> collected" where
  "Rector_file h fileDiff =
     (case read_property h ''diffs'' fileDiff of
        Inl e \<Rightarrow> (Some e, [])
      | Inr ds \<Rightarrow>
          (case (if truthy_json ds then gt_js h (length_of (the ds)) 0 else Inr False) of
             Inl e \<Rightarrow> (Some e, [])
           | Inr detailed \<Rightarrow>
               if detailed then
                 (case iterate h ''fileDiff.diffs'' (the ds) of
                    Inl e \<Rightarrow> (Some e, [])
                  | Inr items \<Rightarrow> for_each (Rector_diff h fileDiff) items)
               else
                 (None, [\<lparr> file' = as_string (own ''file'' fileDiff),
                           line = 1,
                           column = None,
                           severity = Warning,
                           message = ''File has refactoring opportunities'',
                           rule = Some ''typo3-rector'' \<rparr>])))"

definition Rector_collect :: "Host \<Rightarrow> json \<Rightarrow> collected" where
  "Rector_collect h output =
     (case read_property h ''totals'' output of
        Inl e \<Rightarrow> (Some e, [])
      | Inr t \<Rightarrow>
          (case (if truthy_json t then gt_js h (own ''changed_files'' (the t)) 0
                 else Inr False) of
             Inl e \<Rightarrow> (Some e, [])
           | Inr changed \<Rightarrow>
               if changed \<and> truthy_json (own ''file_diffs'' output) then
                 (case iterate h ''output.file_diffs'' (the (own ''file_diffs'' output)) of
                    Inl e \<Rightarrow> (Some e, [])
                  | Inr items \<Rightarrow> for_each (Rector_file h) items)
               else (None, [])))"

text \<open>The regular expression \<^verbatim>\<open>/^\s*\d+\)/\<close>.\<close>

definition numbered_line :: "string \<Rightarrow> bool" where
  "numbered_line ln =
     (let r = dropWhile is_ws ln
      in takeWhile is_digit r \<noteq> []
         \<and> (case dropWhile is_digit r of [] \<Rightarrow> False | c # _ \<Rightarrow> c = CHR '')''))"

text \<open>
  The regular expression \<^verbatim>\<open>/([^\s]+\.php)/\<close>.  At one start, \<open>greedy_php k s\<close> tries
  the first part at \<open>k\<close> characters, then at fewer, down to one; \<open>php_at\<close> starts it
  at the whole run of characters that are not white space; \<open>match_php\<close> takes the
  leftmost start that matches.
\<close>

fun greedy_php :: "nat \<Rightarrow> string \<Rightarrow> string option" where
  "greedy_php 0 s = None"
| "greedy_php (Suc k) s =
     (if take 4 (drop (Suc k) s) = ''.php'' then Some (take (Suc k + 4) s)
      else greedy_php k s)"

definition php_at :: "string \<Rightarrow> string option" where
  "php_at s = greedy_php (length (takeWhile (\<lambda>c. \<not> is_ws c) s)) s"

fun match_php :: "string \<Rightarrow> string option" where
  "match_php [] = None"
| "match_php (c # cs) =
     (case php_at (c # cs) of
        Some m \<Rightarrow> Some m
      | None \<Rightarrow> match_php cs)"

text \<open>The fallback of the \<^verbatim>\<open>catch\<close> block: one line of the text output.\<close>

definition Rector_text_line :: "string \<Rightarrow> Issue list" where
  "Rector_text_line ln =
     (if includes_str ''[FILE]'' ln \<or> numbered_line ln then
        (case match_php ln of
           Some f \<Rightarrow>
             [\<lparr> file' = f, line = 1, column = None, severity = Warning,
                message = ''Rector suggests refactoring for this file'',
                rule = Some ''typo3-rector'' \<rparr>]
         | None \<Rightarrow> [])
      else [])"

text \<open>
  The \<^verbatim>\<open>catch\<close> block logs the warning and goes on to read the output as text; the
  issues that it finds are pushed after those that the \<^verbatim>\<open>try\<close> block had pushed.
\<close>

definition Rector_extract :: "Host \<Rightarrow> ExecResult \<Rightarrow> Issue list \<times> Effect list" where
  "Rector_extract h r =
     (if truthy (stdout r) then
        (case try_block h (Rector_collect h) (stdout r) of
           (Some e, pushed) \<Rightarrow>
             (pushed @ concat (map Rector_text_line (split_on CHR 0x0A (stdout r))),
              [CoreWarning (''Failed to parse Rector JSON output: '' @ error_string e) None])
         | (None, pushed) \<Rightarrow> (pushed, []))
      else ([], []))"

definition Typo3RectorRunner_run :: "Host \<Rightarrow> RunnerConfig \<Rightarrow> ToolResult io" where
  "Typo3RectorRunner_run h config =
     (let args = [''process'', ''--dry-run'', ''--output-format=json'']
                 @ config_args [''--config''] config @ path_args [] config
      in finish_run h ''Running TYPO3 Rector...'' ''TYPO3 Rector'' ''vendor/bin/rector'' args
           (workingDirectory config) (Rector_extract h))"

section \<open>Config resolver (\<^verbatim>\<open>src/unnamed/part_003\<close>)\<close>

fun CONFIG_FILENAMES :: "ToolName \<Rightarrow> string list" where
  "CONFIG_FILENAMES phpstan = [''phpstan.neon'', ''phpstan.neon.dist'']"
| "CONFIG_FILENAMES phpmd = [''phpmd.xml'', ''phpmd.xml.dist'']"
| "CONFIG_FILENAMES php_cs_fixer = [''.php-cs-fixer.php'', ''.php-cs-fixer.dist.php'']"
| "CONFIG_FILENAMES eslint =
     [''.eslintrc.json'', ''.eslintrc.js'', ''.eslintrc.yml'', ''eslint.config.js'']"
| "CONFIG_FILENAMES stylelint =
     [''.stylelintrc.json'', ''.stylelintrc.js'', ''stylelint.config.js'']"
| "CONFIG_FILENAMES editorconfig = [''.editorconfig'']"
| "CONFIG_FILENAMES composer_normalize = [''composer.json'']"
| "CONFIG_FILENAMES typo3_rector = [''rector.php'']"

fun DEFAULT_CONFIGS :: "Host \<Rightarrow> ToolName \<Rightarrow> string" where
  "DEFAULT_CONFIGS h phpstan = path_join h [dirname h, ''defaults'', ''phpstan.neon'']"
| "DEFAULT_CONFIGS h phpmd = path_join h [dirname h, ''defaults'', ''phpmd.xml'']"
| "DEFAULT_CONFIGS h php_cs_fixer = path_join h [dirname h, ''defaults'', ''.php-cs-fixer.php'']"
| "DEFAULT_CONFIGS h eslint = path_join h [dirname h, ''defaults'', ''.eslintrc.json'']"
| "DEFAULT_CONFIGS h stylelint = path_join h [dirname h, ''defaults'', ''.stylelintrc.json'']"
| "DEFAULT_CONFIGS h editorconfig = []"
| "DEFAULT_CONFIGS h composer_normalize = []"
| "DEFAULT_CONFIGS h typo3_rector = []"

text \<open>The loop of priority 2: the first conventional file name that exists in the
  working directory, with its resolved path.\<close>

fun search_configs :: "Host \<Rightarrow> string \<Rightarrow> string list \<Rightarrow> (string \<times> string) option" where
  "search_configs h wd [] = None"
| "search_configs h wd (configFile # rest) =
     (let p = path_resolve h wd configFile
      in if fs_exists h p then Some (configFile, p) else search_configs h wd rest)"

text \<open>Priorities 2 and 3 and the final \<^verbatim>\<open>return undefined\<close>.\<close>

definition resolve_fallback :: "Host \<Rightarrow> ToolName \<Rightarrow> string \<Rightarrow> string option \<times> Effect list" where
  "resolve_fallback h t wd =
     (case search_configs h wd (CONFIG_FILENAMES t) of
        Some (configFile, p) \<Rightarrow>
          (Some p, [CoreInfo (''Found repository config for '' @ tool_id t @ '': '' @ configFile)])
      | None \<Rightarrow>
          (let defaultConfig = DEFAULT_CONFIGS h t
           in if truthy defaultConfig \<and> fs_exists h defaultConfig then
                (Some defaultConfig, [CoreInfo (''Using default config for '' @ tool_id t)])
              else
                (None, [CoreInfo (''No custom config for '' @ tool_id t
                                  @ '', tool will use its own defaults'')])))"

definition resolveConfig ::
  "Host \<Rightarrow> ToolName \<Rightarrow> string option \<Rightarrow> string \<Rightarrow> string option \<times> Effect list" where
  "resolveConfig h t customConfigPath wd =
     (if truthy_opt customConfigPath then
        (let fullPath = path_resolve h wd (the customConfigPath)
         in if fs_exists h fullPath then
              (Some fullPath,
               [CoreInfo (''Using custom config for '' @ tool_id t @ '': '' @ the customConfigPath)])
            else
              (case resolve_fallback h t wd of
                 (r, tr) \<Rightarrow>
                   (r, CoreWarning (''Custom config not found for '' @ tool_id t @ '': ''
                                    @ the customConfigPath) None # tr)))
      else resolve_fallback h t wd)"

section \<open>Tool availability (src/utils/toolCheck.ts) and file finder (src/utils/fileUtils.ts)\<close>

fun TOOL_COMMANDS :: "ToolName \<Rightarrow> string" where
  "TOOL_COMMANDS phpstan = ''vendor/bin/phpstan''"
| "TOOL_COMMANDS phpmd = ''vendor/bin/phpmd''"
| "TOOL_COMMANDS php_cs_fixer = ''vendor/bin/php-cs-fixer''"
| "TOOL_COMMANDS eslint = ''npx eslint''"
| "TOOL_COMMANDS stylelint = ''npx stylelint''"
| "TOOL_COMMANDS editorconfig = ''vendor/bin/editorconfig-cli''"
| "TOOL_COMMANDS composer_normalize = ''composer''"
| "TOOL_COMMANDS typo3_rector = ''vendor/bin/rector''"

fun TOOL_INSTALL_INSTRUCTIONS :: "ToolName \<Rightarrow> string" where
  "TOOL_INSTALL_INSTRUCTIONS phpstan =
     ''Add \"phpstan/phpstan\" to composer.json require-dev and run composer install''"
| "TOOL_INSTALL_INSTRUCTIONS phpmd =
     ''Add \"phpmd/phpmd\" to composer.json require-dev and run composer install''"
| "TOOL_INSTALL_INSTRUCTIONS php_cs_fixer =
     ''Add \"friendsofphp/php-cs-fixer\" to composer.json require-dev and run composer install''"
| "TOOL_INSTALL_INSTRUCTIONS eslint =
     ''Add \"eslint\" to package.json devDependencies and run npm install''"
| "TOOL_INSTALL_INSTRUCTIONS stylelint =
     ''Add \"stylelint\" to package.json devDependencies and run npm install''"
| "TOOL_INSTALL_INSTRUCTIONS editorconfig =
     ''Add \"armin/editorconfig-cli\" to composer.json require-dev and run composer install''"
| "TOOL_INSTALL_INSTRUCTIONS composer_normalize =
     ''Add \"ergebnis/composer-normalize\" to composer.json require-dev and run composer install''"
| "TOOL_INSTALL_INSTRUCTIONS typo3_rector =
     ''Add \"ssch/typo3-rector\" to composer.json require-dev and run composer install''"

text \<open>The command and the arguments of the probe that \<^verbatim>\<open>checkToolAvailability\<close>
  executes for a command line of \<^verbatim>\<open>TOOL_COMMANDS\<close>.\<close>

definition probe :: "string \<Rightarrow> string \<times> string list" where
  "probe command =
     (if prefix ''npx '' command then
        (let packageName = (case split_on CHR 0x20 (remove_first ''npx '' command) of
                              [] \<Rightarrow> []
                            | x # _ \<Rightarrow> x)
         in (''npx'', [packageName, ''--version'']))
      else if command = ''composer'' then (''composer'', [''--version''])
      else (command, [''--version'']))"

definition checkToolAvailability :: "Host \<Rightarrow> ToolName \<Rightarrow> string \<Rightarrow> bool \<times> Effect list" where
  "checkToolAvailability h t wd =
     (let command = TOOL_COMMANDS t
      in if \<not> truthy command then (True, [])
         else (case executeCommand h (fst (probe command)) (snd (probe command)) wd of
                 (Inl e, tr) \<Rightarrow> (False, tr)
               | (Inr r, tr) \<Rightarrow> (exitCode r = 0, tr)))"

definition logToolNotFound :: "ToolName \<Rightarrow> Effect list" where
  "logToolNotFound t =
     [CoreWarning (''Tool '' @ [CHR 0x27] @ tool_id t @ [CHR 0x27] @ '' is not available. ''
                   @ TOOL_INSTALL_INSTRUCTIONS t) None,
      CoreWarning (''Skipping '' @ tool_id t @ '' checks.'') None]"

definition findFiles :: "Host \<Rightarrow> string \<Rightarrow> string \<Rightarrow> string list io" where
  "findFiles h pattern cwd =
     (case glob_files h pattern of
        Inl e \<Rightarrow> (Inl e, [GlobCreate pattern])
      | Inr fs \<Rightarrow>
          (Inr (if truthy cwd \<and> cwd \<noteq> ''.'' then map (remove_first (cwd @ ''/'')) fs else fs),
           [GlobCreate pattern]))"

section \<open>Orchestrator (src/main.ts)\<close>

text \<open>
  The entry point of \<^verbatim>\<open>src/main.ts\<close>, from the inputs as \<^verbatim>\<open>parseInputs\<close>
  returns them (reading the inputs of the action is left to the host).  The tools are
  of type \<^verbatim>\<open>ToolName\<close>, as the signature of \<^verbatim>\<open>runTool\<close> has them, so the
  \<^verbatim>\<open>default\<close> case of its \<^verbatim>\<open>switch\<close> has no counterpart.
\<close>

record ActionInputs =
  tools :: "ToolName list"
  phpPaths :: string
  jsPaths :: string
  stylePaths :: string
  phpstanConfig :: "string option"
  phpmdConfig :: "string option"
  phpCsFixerConfig :: "string option"
  eslintConfig :: "string option"
  stylelintConfig :: "string option"
  editorconfigConfig :: "string option"
  composerNormalizeConfig :: "string option"
  typo3RectorConfig :: "string option"
  failOnErrors :: bool
  workingDirectory :: string

text \<open>The three assignments of each case of the \<^verbatim>\<open>switch\<close> in \<^verbatim>\<open>runTool\<close>:
  the runner, the file paths and the custom config that is passed to
  \<^verbatim>\<open>resolveConfig\<close>.\<close>

fun runner_run :: "Host \<Rightarrow> ToolName \<Rightarrow> RunnerConfig \<Rightarrow> ToolResult io" where
  "runner_run h phpstan = PHPStanRunner_run h"
| "runner_run h phpmd = PHPMDRunner_run h"
| "runner_run h php_cs_fixer = PHPCSFixerRunner_run h"
| "runner_run h eslint = ESLintRunner_run h"
| "runner_run h stylelint = StylelintRunner_run h"
| "runner_run h editorconfig = EditorConfigRunner_run h"
| "runner_run h composer_normalize = ComposerNormalizeRunner_run h"
| "runner_run h typo3_rector = Typo3RectorRunner_run h"

fun tool_files :: "Host \<Rightarrow> ToolName \<Rightarrow> ActionInputs \<Rightarrow> string list io" where
  "tool_files h phpstan inputs = findFiles h (phpPaths inputs) (workingDirectory inputs)"
| "tool_files h phpmd inputs = findFiles h (phpPaths inputs) (workingDirectory inputs)"
| "tool_files h php_cs_fixer inputs = findFiles h (phpPaths inputs) (workingDirectory inputs)"
| "tool_files h eslint inputs = findFiles h (jsPaths inputs) (workingDirectory inputs)"
| "tool_files h stylelint inputs = findFiles h (stylePaths inputs) (workingDirectory inputs)"
| "tool_files h editorconfig inputs = (Inr [''.''], [])"
| "tool_files h composer_normalize inputs = (Inr [''composer.json''], [])"
| "tool_files h typo3_rector inputs = findFiles h (phpPaths inputs) (workingDirectory inputs)"

fun tool_config :: "ToolName \<Rightarrow> ActionInputs \<Rightarrow> string option" where
  "tool_config phpstan inputs = phpstanConfig inputs"
| "tool_config phpmd inputs = phpmdConfig inputs"
| "tool_config php_cs_fixer inputs = phpCsFixerConfig inputs"
| "tool_config eslint inputs = eslintConfig inputs"
| "tool_config stylelint inputs = stylelintConfig inputs"
| "tool_config editorconfig inputs = editorconfigConfig inputs"
| "tool_config composer_normalize inputs = composerNormalizeConfig inputs"
| "tool_config typo3_rector inputs = typo3RectorConfig inputs"

text \<open>The \<^verbatim>\<open>try\<close> block of \<^verbatim>\<open>runTool\<close>; \<open>None\<close> is \<^verbatim>\<open>null\<close>.\<close>

definition runTool_try :: "Host \<Rightarrow> ToolName \<Rightarrow> ActionInputs \<Rightarrow> ToolResult option io" where
  "runTool_try h t inputs =
     (case checkToolAvailability h t (workingDirectory inputs) of
        (isAvailable, t1) \<Rightarrow>
          if \<not> isAvailable then (Inr None, t1 @ logToolNotFound t)
          else
            (case tool_files h t inputs of
               (Inl e, t2) \<Rightarrow> (Inl e, t1 @ t2)
             | (Inr fps, t2) \<Rightarrow>
                 (case resolveConfig h t (tool_config t inputs) (workingDirectory inputs) of
                    (cp, t3) \<Rightarrow>
                      if length fps = 0 then
                        (Inr (Some \<lparr> tool = tool_id t, success = True, issues = [],
                                     rawOutput = [] \<rparr>),
                         t1 @ t2 @ t3
                         @ [CoreInfo (''No files found for '' @ tool_id t @ '', skipping...'')])
                      else
                        (let t4 = [CoreInfo (''Found '' @ string_of_nat (length fps)
                                             @ '' files to check with '' @ tool_id t)]
                         in case runner_run h t
                                   \<lparr> configPath = cp, filePaths = fps,
                                     RunnerConfig.workingDirectory = workingDirectory inputs \<rparr> of
                              (Inl e, t5) \<Rightarrow> (Inl e, t1 @ t2 @ t3 @ t4 @ t5)
                            | (Inr res, t5) \<Rightarrow> (Inr (Some res), t1 @ t2 @ t3 @ t4 @ t5)))))"

definition runTool :: "Host \<Rightarrow> ToolName \<Rightarrow> ActionInputs \<Rightarrow> ToolResult option \<times> Effect list" where
  "runTool h t inputs =
     (case runTool_try h t inputs of
        (Inr r, tr) \<Rightarrow> (r, tr)
      | (Inl e, tr) \<Rightarrow>
          (Some \<lparr> tool = tool_id t, success = False, issues = [],
                  rawOutput = error_message e \<rparr>,
           tr @ [CoreError (''Error running '' @ tool_id t @ '': '' @ error_string e) None]))"

text \<open>The loop of \<^verbatim>\<open>run\<close> over the requested tools.\<close>

fun run_tools :: "Host \<Rightarrow> ActionInputs \<Rightarrow> ToolName list \<Rightarrow> ToolResult list \<times> Effect list" where
  "run_tools h inputs [] = ([], [])"
| "run_tools h inputs (t # ts) =
     (case runTool h t inputs of
        (r, tr) \<Rightarrow>
          (case run_tools h inputs ts of
             (rs, trs) \<Rightarrow> ((case r of None \<Rightarrow> rs | Some x \<Rightarrow> x # rs), tr @ trs)))"

subsection \<open>The summary of the reporter\<close>

text \<open>The ANSI colour codes of \<^verbatim>\<open>colors\<close>.\<close>

definition ansi :: "string \<Rightarrow> string" where
  "ansi code = CHR 0x1B # ''['' @ code @ ''m''"

text \<open>
  The object that groups the issues of one result by file starts as \<^verbatim>\<open>{}\<close>.  For a
  file whose name is a property that every object inherits, \<^verbatim>\<open>acc[issue.file]\<close> is
  the inherited value: it is truthy, so no array is stored under the name, and it has
  no \<^verbatim>\<open>push\<close>, so the call throws.  For every other file the key is created when
  its first issue is met.  In \<^verbatim>\<open>Object.entries\<close> the keys that are array indices
  come first, in ascending order, and the others follow in the order of their
  creation.
\<close>

definition Object_prototype :: "string list" where
  "Object_prototype =
     [''constructor'', ''__defineGetter__'', ''__defineSetter__'', ''hasOwnProperty'',
      ''__lookupGetter__'', ''__lookupSetter__'', ''isPrototypeOf'', ''propertyIsEnumerable'',
      ''toString'', ''valueOf'', ''__proto__'', ''toLocaleString'']"

fun add_by_file :: "(string \<times> Issue list) list \<Rightarrow> Issue \<Rightarrow> (string \<times> Issue list) list" where
  "add_by_file [] i = [(file' i, [i])]"
| "add_by_file ((k, v) # acc) i =
     (if k = file' i then (k, v @ [i]) # acc else (k, v) # add_by_file acc i)"

fun group_by_file ::
  "Host \<Rightarrow> (string \<times> Issue list) list \<Rightarrow> Issue list
     \<Rightarrow> Thrown + (string \<times> Issue list) list" where
  "group_by_file h acc [] = Inr acc"
| "group_by_file h acc (i # rest) =
     (if file' i \<in> set Object_prototype
      then Inl (type_error h (NotAFunction ''acc[issue.file].push''))
      else group_by_file h (add_by_file acc i) rest)"

definition is_array_index :: "string \<Rightarrow> bool" where
  "is_array_index k =
     (k \<noteq> [] \<and> list_all is_digit k \<and> (k = ''0'' \<or> take 1 k \<noteq> ''0'')
      \<and> parseInt k \<le> 4294967294)"

definition issuesByFile :: "Host \<Rightarrow> Issue list \<Rightarrow> Thrown + (string \<times> Issue list) list" where
  "issuesByFile h xs =
     map_sum id
       (\<lambda>acc. sort_key (\<lambda>(k, v). parseInt k) (filter (\<lambda>(k, v). is_array_index k) acc)
              @ filter (\<lambda>(k, v). \<not> is_array_index k) acc)
       (group_by_file h [] xs)"

text \<open>The body of the loop over the results, and the loop: an error that the grouping
  throws ends both.\<close>

definition summary_group :: "Host \<Rightarrow> ToolResult \<Rightarrow> unit io" where
  "summary_group h r =
     (if length (issues r) > 0 then
        (let t = [CoreStartGroup (ansi ''36'' @ tool r @ '': '' @ string_of_nat (length (issues r))
                                  @ '' issues'' @ ansi ''0''),
                  CoreInfo (ansi ''31'' @ ''Errors: ''
                    @ string_of_nat (length (filter (\<lambda>i. severity i = Error) (issues r)))
                    @ ansi ''0'' @ '', '' @ ansi ''33'' @ ''Warnings: ''
                    @ string_of_nat (length (filter (\<lambda>i. severity i = Warning) (issues r)))
                    @ ansi ''0'')]
         in case issuesByFile h (issues r) of
              Inl e \<Rightarrow> (Inl e, t)
            | Inr groups \<Rightarrow>
                (Inr (),
                 t @ map (\<lambda>(f, xs). CoreInfo (''  '' @ ansi ''2'' @ f @ '': ''
                                               @ string_of_nat (length xs)
                                               @ '' issue(s)'' @ ansi ''0'')) groups
                 @ [CoreEndGroup]))
      else (Inr (), []))"

fun summary_groups :: "Host \<Rightarrow> ToolResult list \<Rightarrow> unit io" where
  "summary_groups h [] = (Inr (), [])"
| "summary_groups h (r # rs) =
     (case summary_group h r of
        (Inl e, t) \<Rightarrow> (Inl e, t)
      | (Inr u, t) \<Rightarrow> (case summary_groups h rs of (x, ts) \<Rightarrow> (x, t @ ts)))"

text \<open>The rows of the table of the job summary.\<close>

definition summary_table :: "ToolResult list \<Rightarrow> string list list" where
  "summary_table rs =
     [''Tool'', ''Status'', ''Issues'']
     # map (\<lambda>r. [tool r,
                   if success r then ansi ''32'' @ ''PASS'' @ ansi ''0''
                   else ansi ''31'' @ ''FAIL'' @ ansi ''0'',
                   string_of_nat (length (issues r))]) rs
     @ [[[], ''Total'', string_of_nat (sumIssues rs)]]"

definition generateSummary :: "Host \<Rightarrow> ToolResult list \<Rightarrow> unit io" where
  "generateSummary h rs =
     (let total = sumIssues rs;
          table = summary_table rs
      in case summary_write h table of
           Some e \<Rightarrow> (Inl e, [SummaryWrite table])
         | None \<Rightarrow>
             if total > 0 then
               (case summary_groups h rs of
                  (x, t) \<Rightarrow>
                    (x, SummaryWrite table
                        # CoreInfo (ansi ''33'' @ ''Found '' @ string_of_nat total
                                    @ '' code quality issues across all tools'' @ ansi ''0'')
                        # t))
             else
               (Inr (), [SummaryWrite table,
                         CoreInfo (ansi ''32'' @ ''No code quality issues found!'' @ ansi ''0'')]))"

subsection \<open>The entry point\<close>

text \<open>
  \<^verbatim>\<open>run\<close>, from the inputs that \<^verbatim>\<open>parseInputs\<close> returned.  \<open>decide\<close> is its
  last statement, \<open>outputs\<close> the three calls of \<^verbatim>\<open>core.setOutput\<close> before it.
\<close>

definition outputs :: "Host \<Rightarrow> ToolResult list \<Rightarrow> Effect list" where
  "outputs h rs =
     (let total = sumIssues rs;
          report = getReport (JSON_stringify h) rs
      in [CoreSetOutput ''total-issues'' (OutNum total),
          CoreSetOutput ''status'' (OutStr (if total > 0 then ''failed'' else ''success'')),
          CoreSetOutput ''report'' (OutStr report)])"

definition decide :: "bool \<Rightarrow> nat \<Rightarrow> Effect" where
  "decide fail n =
     (if fail \<and> n > 0 then
        CoreSetFailed (''Found '' @ string_of_nat n @ '' code quality issues'')
      else if n > 0 then
        CoreWarning (''Found '' @ string_of_nat n
                     @ '' code quality issues (not failing due to configuration)'') None
      else CoreInfo ''All code quality checks passed!'')"

definition run :: "Host \<Rightarrow> ActionInputs \<Rightarrow> Effect list" where
  "run h inputs =
     (let t0 = [CoreInfo ''Starting code quality checks...'',
                CoreInfo (''Tools to run: '' @ join '', '' (map tool_id (tools inputs)))]
      in case run_tools h inputs (tools inputs) of
           (rs, t1) \<Rightarrow>
             (case generateSummary h rs of
                (Inl e, t3) \<Rightarrow>
                  t0 @ t1 @ generateAnnotations rs @ t3
                  @ [CoreSetFailed (''Action failed: '' @ error_message e)]
              | (Inr u, t3) \<Rightarrow>
                  t0 @ t1 @ generateAnnotations rs @ t3 @ outputs h rs
                  @ [decide (failOnErrors inputs) (sumIssues rs)]))"

section \<open>Cache manager (src/cache/CacheManager.ts)\<close>

record CacheConfig =
  enabled :: bool
  keyPrefix :: string
  composerCache :: bool
  composerVendor :: bool
  npmCache :: bool
  nodeModules :: bool

record CacheKeyInfo =
  key :: string
  restoreKeys :: "string list"
  paths :: "string list"

text \<open>The fields of the class; the logger writes through \<^verbatim>\<open>@actions/core\<close> and
  is not a field of the model.  \<open>None\<close> is \<^verbatim>\<open>null\<close>.\<close>

record CacheManager =
  config :: CacheConfig
  workingDirectory :: string
  composerCacheDir :: "string option"
  npmCacheDir :: "string option"

text \<open>The lock hash of a lock file that exists:
  \<^verbatim>\<open>crypto.createHash('sha256').update(lockContent).digest('hex').substring(0, 8)\<close>.\<close>

definition lock_hash :: "Host \<Rightarrow> string \<Rightarrow> Thrown + string" where
  "lock_hash h lockPath =
     (case fs_readFile h lockPath of
        Inl e \<Rightarrow> Inl e
      | Inr lockContent \<Rightarrow> Inr (take 8 (sha256_hex h lockContent)))"

definition generateComposerCacheKey :: "Host \<Rightarrow> CacheManager \<Rightarrow> Thrown + CacheKeyInfo" where
  "generateComposerCacheKey h m =
     (let platform = process_platform h;
          pre = keyPrefix (config m);
          ps = (if composerCache (config m) \<and> truthy_opt (composerCacheDir m)
                then [the (composerCacheDir m)] else [])
               @ (if composerVendor (config m)
                  then [path_join h [workingDirectory m, ''vendor'']] else []);
          composerLockPath = path_join h [workingDirectory m, ''composer.lock'']
      in case (if fs_exists h composerLockPath then lock_hash h composerLockPath
               else Inr ''no-lock'') of
           Inl e \<Rightarrow> Inl e
         | Inr lockHash \<Rightarrow>
             Inr \<lparr> key = pre @ ''-'' @ platform @ ''-composer-'' @ lockHash,
                   restoreKeys = [pre @ ''-'' @ platform @ ''-composer-'',
                                  pre @ ''-composer-''],
                   paths = ps \<rparr>)"

text \<open>The lock file and the package manager of \<^verbatim>\<open>generateNpmCacheKey\<close>: the lock
  hash and the label, in the order of the \<^verbatim>\<open>if\<close> chain.\<close>

definition npm_lock :: "Host \<Rightarrow> CacheManager \<Rightarrow> Thrown + string \<times> string" where
  "npm_lock h m =
     (let packageLockPath = path_join h [workingDirectory m, ''package-lock.json''];
          yarnLockPath = path_join h [workingDirectory m, ''yarn.lock''];
          pnpmLockPath = path_join h [workingDirectory m, ''pnpm-lock.yaml'']
      in if fs_exists h pnpmLockPath then
           map_sum id (\<lambda>lockHash. (lockHash, ''pnpm'')) (lock_hash h pnpmLockPath)
         else if fs_exists h yarnLockPath then
           map_sum id (\<lambda>lockHash. (lockHash, ''yarn'')) (lock_hash h yarnLockPath)
         else if fs_exists h packageLockPath then
           map_sum id (\<lambda>lockHash. (lockHash, ''npm'')) (lock_hash h packageLockPath)
         else Inr (''no-lock'', ''npm''))"

definition generateNpmCacheKey :: "Host \<Rightarrow> CacheManager \<Rightarrow> Thrown + CacheKeyInfo" where
  "generateNpmCacheKey h m =
     (let platform = process_platform h;
          pre = keyPrefix (config m);
          ps = (if npmCache (config m) \<and> truthy_opt (npmCacheDir m)
                then [the (npmCacheDir m)] else [])
               @ (if nodeModules (config m)
                  then [path_join h [workingDirectory m, ''node_modules'']] else [])
      in case npm_lock h m of
           Inl e \<Rightarrow> Inl e
         | Inr (lockHash, packageManager) \<Rightarrow>
             Inr \<lparr> key = pre @ ''-'' @ platform @ ''-'' @ packageManager @ ''-'' @ lockHash,
                   restoreKeys = [pre @ ''-'' @ platform @ ''-'' @ packageManager @ ''-'',
                                  pre @ ''-'' @ platform @ ''-'',
                                  pre @ ''-''],
                   paths = ps \<rparr>)"

definition filterExistingPaths :: "Host \<Rightarrow> string list \<Rightarrow> string list" where
  "filterExistingPaths h ps = filter (fs_exists h) ps"

text \<open>
  \<^verbatim>\<open>restoreComposerCache\<close> and \<^verbatim>\<open>restoreNpmCache\<close> differ in the key generator
  and in the name of the ecosystem in the log lines and state entries, and so do the
  two save methods; \<open>restoreCache\<close> and \<open>saveCache\<close> are their common text.
\<close>

definition restoreCache ::
  "Host \<Rightarrow> string \<Rightarrow> string \<Rightarrow> (Thrown + CacheKeyInfo) \<Rightarrow> unit io" where
  "restoreCache h label eco generated =
     (case generated of
        Inl e \<Rightarrow> (Inl e, [])
      | Inr cacheKeyInfo \<Rightarrow>
          if length (paths cacheKeyInfo) = 0 then
            (Inr (), [CoreDebug (''No '' @ label @ '' cache paths configured'')])
          else
            (let t1 = [CoreInfo (label @ '' cache key: '' @ key cacheKeyInfo),
                       CoreDebug (label @ '' cache paths: '' @ join '', '' (paths cacheKeyInfo)),
                       CacheRestoreCache (paths cacheKeyInfo) (key cacheKeyInfo)
                         (restoreKeys cacheKeyInfo)]
             in case cache_restoreCache h (paths cacheKeyInfo) (key cacheKeyInfo)
                       (restoreKeys cacheKeyInfo) of
                  Inl e \<Rightarrow> (Inl e, t1)
                | Inr cacheHit \<Rightarrow>
                    if truthy_opt cacheHit then
                      (Inr (), t1 @ [CoreInfo (label @ '' cache restored from key: '' @ the cacheHit),
                                     CoreSaveState (eco @ ''-cache-hit'') ''true'',
                                     CoreSaveState (eco @ ''-cache-key'') (key cacheKeyInfo)])
                    else
                      (Inr (), t1 @ [CoreInfo (label @ '' cache not found''),
                                     CoreSaveState (eco @ ''-cache-hit'') ''false'',
                                     CoreSaveState (eco @ ''-cache-key'') (key cacheKeyInfo)])))"

definition restoreComposerCache :: "Host \<Rightarrow> CacheManager \<Rightarrow> unit io" where
  "restoreComposerCache h m = restoreCache h ''Composer'' ''composer'' (generateComposerCacheKey h m)"

definition restoreNpmCache :: "Host \<Rightarrow> CacheManager \<Rightarrow> unit io" where
  "restoreNpmCache h m = restoreCache h ''npm'' ''npm'' (generateNpmCacheKey h m)"

definition saveCache ::
  "Host \<Rightarrow> string \<Rightarrow> string \<Rightarrow> (Thrown + CacheKeyInfo) \<Rightarrow> unit io" where
  "saveCache h label eco generated =
     (let cacheHit = (core_getState h (eco @ ''-cache-hit'') = ''true'')
      in if cacheHit then
           (Inr (), [CoreDebug (label @ '' cache hit occurred, skipping save'')])
         else
           (let cacheKey = core_getState h (eco @ ''-cache-key'')
            in if \<not> truthy cacheKey then
                 (Inr (), [CoreDebug (''No '' @ label @ '' cache key found, skipping save'')])
               else
                 (case generated of
                    Inl e \<Rightarrow> (Inl e, [])
                  | Inr cacheKeyInfo \<Rightarrow>
                      (let existingPaths = filterExistingPaths h (paths cacheKeyInfo)
                       in if length existingPaths = 0 then
                            (Inr (), [CoreDebug (''No '' @ label @ '' cache paths exist to save'')])
                          else
                            (Inr (),
                             [CoreInfo (''Saving '' @ label @ '' cache with key: '' @ cacheKey),
                              CoreDebug (label @ '' cache paths: '' @ join '', '' existingPaths),
                              CacheSaveCache existingPaths cacheKey,
                              (case cache_saveCache h existingPaths cacheKey of
                                 None \<Rightarrow> CoreInfo (label @ '' cache saved successfully'')
                               | Some e \<Rightarrow>
                                   CoreWarning (''Failed to save '' @ label @ '' cache: ''
                                                @ error_message e) None)])))))"

definition saveComposerCache :: "Host \<Rightarrow> CacheManager \<Rightarrow> unit io" where
  "saveComposerCache h m = saveCache h ''Composer'' ''composer'' (generateComposerCacheKey h m)"

definition saveNpmCache :: "Host \<Rightarrow> CacheManager \<Rightarrow> unit io" where
  "saveNpmCache h m = saveCache h ''npm'' ''npm'' (generateNpmCacheKey h m)"

text \<open>One attempt of the detection of a cache directory: the command, and the
  directory when it exits with 0 and prints one.\<close>

definition detect_with ::
  "Host \<Rightarrow> string \<Rightarrow> string list \<Rightarrow> string \<Rightarrow> (string option) io" where
  "detect_with h command args wd =
     (case executeCommand h command args wd of
        (Inl e, tr) \<Rightarrow> (Inl e, tr)
      | (Inr r, tr) \<Rightarrow>
          (Inr (if exitCode r = 0 \<and> truthy (stdout r) then Some (trim (stdout r)) else None), tr))"

definition detectComposerCacheDir :: "Host \<Rightarrow> CacheManager \<Rightarrow> CacheManager \<times> Effect list" where
  "detectComposerCacheDir h m =
     (if \<not> composerCache (config m) then (m, [])
      else
        (case detect_with h ''composer'' [''config'', ''cache-files-dir''] (workingDirectory m) of
           (Inl e, tr) \<Rightarrow> (m, tr @ [CoreDebug ''Composer not available for cache detection''])
         | (Inr (Some d), tr) \<Rightarrow>
             (m\<lparr>composerCacheDir := Some d\<rparr>, tr @ [CoreDebug (''Composer cache directory: '' @ d)])
         | (Inr None, tr) \<Rightarrow>
             (m, tr @ [CoreDebug ''Could not detect Composer cache directory''])))"

definition detectNpmCacheDir :: "Host \<Rightarrow> CacheManager \<Rightarrow> CacheManager \<times> Effect list" where
  "detectNpmCacheDir h m =
     (let unavailable = CoreDebug ''npm/yarn/pnpm not available for cache detection''
      in if \<not> npmCache (config m) then (m, [])
         else
           (case detect_with h ''npm'' [''config'', ''get'', ''cache''] (workingDirectory m) of
              (Inl e, t1) \<Rightarrow> (m, t1 @ [unavailable])
            | (Inr (Some d), t1) \<Rightarrow>
                (m\<lparr>npmCacheDir := Some d\<rparr>, t1 @ [CoreDebug (''npm cache directory: '' @ d)])
            | (Inr None, t1) \<Rightarrow>
                (case detect_with h ''yarn'' [''cache'', ''dir''] (workingDirectory m) of
                   (Inl e, t2) \<Rightarrow> (m, t1 @ t2 @ [unavailable])
                 | (Inr (Some d), t2) \<Rightarrow>
                     (m\<lparr>npmCacheDir := Some d\<rparr>,
                      t1 @ t2 @ [CoreDebug (''Yarn cache directory: '' @ d)])
                 | (Inr None, t2) \<Rightarrow>
                     (case detect_with h ''pnpm'' [''store'', ''path''] (workingDirectory m) of
                        (Inl e, t3) \<Rightarrow> (m, t1 @ t2 @ t3 @ [unavailable])
                      | (Inr (Some d), t3) \<Rightarrow>
                          (m\<lparr>npmCacheDir := Some d\<rparr>,
                           t1 @ t2 @ t3 @ [CoreDebug (''pnpm cache directory: '' @ d)])
                      | (Inr None, t3) \<Rightarrow>
                          (m, t1 @ t2 @ t3
                              @ [CoreDebug ''Could not detect npm/yarn/pnpm cache directory''])))))"

text \<open>The two phases.  An error of the \<^verbatim>\<open>try\<close> block becomes a warning, and the
  group is closed in either case.\<close>

definition restore :: "Host \<Rightarrow> CacheManager \<Rightarrow> CacheManager \<times> Effect list" where
  "restore h m =
     (if \<not> enabled (config m) then (m, [CoreDebug ''Cache is disabled''])
      else
        (case detectComposerCacheDir h m of
           (m1, t1) \<Rightarrow>
             (case detectNpmCacheDir h m1 of
                (m2, t2) \<Rightarrow>
                  (let t0 = CoreStartGroup ''Restoring cache'' # t1 @ t2;
                       failed = (\<lambda>e. CoreWarning (''Failed to restore cache: '' @ error_message e) None)
                   in case restoreComposerCache h m2 of
                        (Inl e, t3) \<Rightarrow> (m2, t0 @ t3 @ [failed e, CoreEndGroup])
                      | (Inr u, t3) \<Rightarrow>
                          (case restoreNpmCache h m2 of
                             (Inl e, t4) \<Rightarrow> (m2, t0 @ t3 @ t4 @ [failed e, CoreEndGroup])
                           | (Inr v, t4) \<Rightarrow>
                               (m2, t0 @ t3 @ t4
                                    @ [CoreInfo ''Cache restoration completed'', CoreEndGroup]))))))"

definition save :: "Host \<Rightarrow> CacheManager \<Rightarrow> Effect list" where
  "save h m =
     (if \<not> enabled (config m) then []
      else
        (let failed = (\<lambda>e. CoreWarning (''Failed to save cache: '' @ error_message e) None)
         in case saveComposerCache h m of
              (Inl e, t1) \<Rightarrow> CoreStartGroup ''Saving cache'' # t1 @ [failed e, CoreEndGroup]
            | (Inr u, t1) \<Rightarrow>
                (case saveNpmCache h m of
                   (Inl e, t2) \<Rightarrow>
                     CoreStartGroup ''Saving cache'' # t1 @ t2 @ [failed e, CoreEndGroup]
                 | (Inr v, t2) \<Rightarrow>
                     CoreStartGroup ''Saving cache'' # t1 @ t2
                     @ [CoreInfo ''Cache saving completed'', CoreEndGroup])))"

section \<open>Reading a trace\<close>

text \<open>
  An annotation is a call of \<^verbatim>\<open>core.error\<close> or \<^verbatim>\<open>core.warning\<close> with
  properties; a verdict is a call of \<^verbatim>\<open>core.setOutput\<close> or \<^verbatim>\<open>core.setFailed\<close>.
  The process is marked failed when \<^verbatim>\<open>core.setFailed\<close> was called.
\<close>

fun is_annotation :: "Effect \<Rightarrow> bool" where
  "is_annotation (CoreError m (Some p)) = True"
| "is_annotation (CoreWarning m (Some p)) = True"
| "is_annotation e = False"


fun is_verdict :: "Effect \<Rightarrow> bool" where
  "is_verdict (CoreSetFailed m) = True"
| "is_verdict (CoreSetOutput n v) = True"
| "is_verdict e = False"

fun is_exec :: "Effect \<Rightarrow> bool" where
  "is_exec (ExecExec c a d) = True"
| "is_exec e = False"

fun is_saveCache :: "Effect \<Rightarrow> bool" where
  "is_saveCache (CacheSaveCache ps k) = True"
| "is_saveCache e = False"



text \<open>The values that a trace sets an output to, in order.\<close>

fun output_values :: "string \<Rightarrow> Effect list \<Rightarrow> OutputValue list" where
  "output_values n [] = []"
| "output_values n (CoreSetOutput k v # tr) =
     (if k = n then v # output_values n tr else output_values n tr)"
| "output_values n (e # tr) = output_values n tr"

text \<open>A trace with no annotation and no verdict in it.\<close>

definition quiet :: "Effect list \<Rightarrow> bool" where
  "quiet tr = list_all (\<lambda>e. \<not> is_annotation e \<and> \<not> is_verdict e) tr"

section \<open>The parts of a runner\<close>

text \<open>
  The name under which the runner of a tool reports, the command line that it
  executes, the directory in which \<open>executeCommand\<close> executes it, and the loops of
  its \<^verbatim>\<open>try\<close> block (the two runners that read no JSON have none).
\<close>

fun runner_name :: "ToolName \<Rightarrow> string" where
  "runner_name phpstan = ''PHPStan''"
| "runner_name phpmd = ''PHPMD''"
| "runner_name php_cs_fixer = ''PHP-CS-Fixer''"
| "runner_name eslint = ''ESLint''"
| "runner_name stylelint = ''Stylelint''"
| "runner_name editorconfig = ''EditorConfig''"
| "runner_name composer_normalize = ''Composer Normalize''"
| "runner_name typo3_rector = ''TYPO3 Rector''"

fun runner_command :: "ToolName \<Rightarrow> RunnerConfig \<Rightarrow> string \<times> string list" where
  "runner_command phpstan cfg =
     (''vendor/bin/phpstan'',
      [''analyze'', ''--error-format=json'', ''--no-progress'']
      @ config_args [''-c''] cfg @ path_args [] cfg)"
| "runner_command phpmd cfg =
     (''vendor/bin/phpmd'',
      [if length (filePaths cfg) > 0 then join '','' (filePaths cfg) else ''.'', ''json'']
      @ (if truthy_opt (configPath cfg) then [the (configPath cfg)]
         else [''cleancode,codesize,controversial,design,naming,unusedcode'']))"
| "runner_command php_cs_fixer cfg =
     (''vendor/bin/php-cs-fixer'',
      [''fix'', ''--dry-run'', ''--format=json'', ''--diff'']
      @ (if truthy_opt (configPath cfg) then [''--config='' @ the (configPath cfg)] else [])
      @ path_args [] cfg)"
| "runner_command eslint cfg =
     (''npx'',
      [''eslint'', ''--format=json''] @ config_args [''-c''] cfg @ path_args [''.''] cfg)"
| "runner_command stylelint cfg =
     (''npx'',
      [''stylelint'', ''--formatter=json''] @ config_args [''--config''] cfg
      @ path_args [''**/*.{css,scss}''] cfg)"
| "runner_command editorconfig cfg =
     (''vendor/bin/editorconfig-cli'', [''check''] @ path_args [] cfg)"
| "runner_command composer_normalize cfg =
     (''composer'', [''normalize'', ''--dry-run''] @ config_args [] cfg)"
| "runner_command typo3_rector cfg =
     (''vendor/bin/rector'',
      [''process'', ''--dry-run'', ''--output-format=json'']
      @ config_args [''--config''] cfg @ path_args [] cfg)"

definition exec_cwd :: "Host \<Rightarrow> RunnerConfig \<Rightarrow> string" where
  "exec_cwd h cfg =
     (if truthy (RunnerConfig.workingDirectory cfg) then RunnerConfig.workingDirectory cfg
      else process_cwd h)"

fun runner_collect :: "Host \<Rightarrow> ToolName \<Rightarrow> json \<Rightarrow> collected" where
  "runner_collect h phpstan = PHPStan_collect h"
| "runner_collect h phpmd = PHPMD_collect h"
| "runner_collect h php_cs_fixer = PHPCSFixer_collect h"
| "runner_collect h eslint = ESLint_collect h"
| "runner_collect h stylelint = Stylelint_collect h"
| "runner_collect h editorconfig = (\<lambda>output. (None, []))"
| "runner_collect h composer_normalize = (\<lambda>output. (None, []))"
| "runner_collect h typo3_rector = Rector_collect h"

section \<open>Sample hosts\<close>

text \<open>
  Concrete hosts and inputs, at which the theorems below are instantiated.  In the
  first, ESLint and Stylelint are installed; ESLint exits with 0 and reports two errors
  and one warning in one file, Stylelint exits with 0 and reports nothing.  The
  patterns of the inputs are \<^verbatim>\<open>**/*.js\<close> and \<^verbatim>\<open>**/*.css\<close>, and each matches one
  file of the repository, of which the glob gives the absolute path.  No document of
  the sample hosts holds a string where the runners compare a number, so the
  conversion of a string to a number is not consulted; the hosts give it for the
  strings of digits.
\<close>

definition sample_eslint_json :: string where
  "sample_eslint_json =
     ''[{\"filePath\":\"src/app.js\",\"messages\":[''
     @ ''{\"ruleId\":\"no-undef\",\"severity\":2,\"message\":\"x is not defined\",\"line\":3,\"column\":1},''
     @ ''{\"ruleId\":\"eqeqeq\",\"severity\":2,\"message\":\"Expected ===\",\"line\":7,\"column\":9},''
     @ ''{\"ruleId\":\"no-console\",\"severity\":1,\"message\":\"Unexpected console statement\",\"line\":9,\"column\":1}''
     @ ''],\"errorCount\":2,\"warningCount\":1}]''"

definition sample_eslint_output :: json where
  "sample_eslint_output =
     JArr [JObj [(''filePath'', JStr ''src/app.js''),
                 (''messages'', JArr
                    [JObj [(''ruleId'', JStr ''no-undef''), (''severity'', JNum 2),
                           (''message'', JStr ''x is not defined''),
                           (''line'', JNum 3), (''column'', JNum 1)],
                     JObj [(''ruleId'', JStr ''eqeqeq''), (''severity'', JNum 2),
                           (''message'', JStr ''Expected ===''),
                           (''line'', JNum 7), (''column'', JNum 9)],
                     JObj [(''ruleId'', JStr ''no-console''), (''severity'', JNum 1),
                           (''message'', JStr ''Unexpected console statement''),
                           (''line'', JNum 9), (''column'', JNum 1)]]),
                 (''errorCount'', JNum 2), (''warningCount'', JNum 1)]]"

definition sample_issues :: "Issue list" where
  "sample_issues =
     [\<lparr> file' = ''src/app.js'', line = 3, column = Some 1, severity = Error,
         message = ''x is not defined'', rule = Some ''no-undef'' \<rparr>,
      \<lparr> file' = ''src/app.js'', line = 7, column = Some 9, severity = Error,
         message = ''Expected ==='', rule = Some ''eqeqeq'' \<rparr>,
      \<lparr> file' = ''src/app.js'', line = 9, column = Some 1, severity = Warning,
         message = ''Unexpected console statement'', rule = Some ''no-console'' \<rparr>]"

definition sample_results :: "ToolResult list" where
  "sample_results =
     [\<lparr> tool = ''ESLint'', success = True, issues = sample_issues,
         rawOutput = sample_eslint_json \<rparr>,
      \<lparr> tool = ''Stylelint'', success = True, issues = [], rawOutput = ''[]'' \<rparr>]"

definition no_json :: Thrown where
  "no_json = Thrown ''SyntaxError'' ''Unexpected token''"

text \<open>The messages of the \<^verbatim>\<open>TypeError\<close> objects of V8.\<close>

fun v8_type_error :: "TypeError \<Rightarrow> Thrown" where
  "v8_type_error (ReadOfNull p) =
     Thrown ''TypeError'' (''Cannot read properties of null (reading '' @ [CHR 0x27] @ p
                           @ [CHR 0x27] @ '')'')"
| "v8_type_error (NotIterable x) = Thrown ''TypeError'' (x @ '' is not iterable'')"
| "v8_type_error (NotAFunction x) = Thrown ''TypeError'' (x @ '' is not a function'')"
| "v8_type_error NoPrimitive = Thrown ''TypeError'' ''Cannot convert object to primitive value''"

definition sample_host :: Host where
  "sample_host =
     \<lparr> exec_exec = (\<lambda>c a d.
         if c = ''npx'' \<and> a = [''eslint'', ''--version''] then Inr (0, ''v9.0.0'', [])
         else if c = ''npx'' \<and> a = [''stylelint'', ''--version''] then Inr (0, ''16.0.0'', [])
         else if c = ''npx'' \<and> take 1 a = [''eslint''] then Inr (0, sample_eslint_json, [])
         else if c = ''npx'' \<and> take 1 a = [''stylelint''] then Inr (0, ''[]'', [])
         else Inl (Thrown ''Error'' ''Unable to locate executable file'')),
       process_cwd = ''/repo'',
       process_platform = ''linux'',
       dirname = ''/action/dist'',
       path_resolve = (\<lambda>wd f. ''/repo/'' @ f),
       path_join = join ''/'',
       fs_exists = (\<lambda>p. p = ''/repo/.eslintrc.json''),
       fs_readFile = (\<lambda>p. Inl (Thrown ''Error'' ''ENOENT'')),
       sha256_hex = (\<lambda>s. []),
       glob_files = (\<lambda>p. if p = ''**/*.js'' then Inr [''/repo/src/app.js'']
                         else if p = ''**/*.css'' then Inr [''/repo/src/app.css'']
                         else Inr []),
       cache_restoreCache = (\<lambda>ps k rk. Inr None),
       cache_saveCache = (\<lambda>ps k. None),
       core_getState = (\<lambda>k. []),
       summary_write = (\<lambda>t. None),
       JSON_stringify = (\<lambda>r. ''{}''),
       JSON_parse = (\<lambda>s. if s = sample_eslint_json then Inr sample_eslint_output
                          else if s = ''[]'' then Inr (JArr [])
                          else Inl no_json),
       type_error = v8_type_error,
       Number_le = (\<lambda>s n. list_all is_digit s \<and> parseInt s \<le> n),
       Number_gt = (\<lambda>s n. list_all is_digit s \<and> parseInt s > n) \<rparr>"

definition sample_inputs :: ActionInputs where
  "sample_inputs =
     \<lparr> tools = [eslint, stylelint],
       phpPaths = ''**/*.php'',
       jsPaths = ''**/*.js'',
       stylePaths = ''**/*.css'',
       phpstanConfig = None, phpmdConfig = None, phpCsFixerConfig = None,
       eslintConfig = None, stylelintConfig = None, editorconfigConfig = None,
       composerNormalizeConfig = None, typo3RectorConfig = None,
       failOnErrors = False,
       ActionInputs.workingDirectory = ''.'' \<rparr>"








text \<open>A config of the ESLint runner, with the config file of the repository and one
  file to check.\<close>

definition sample_config :: RunnerConfig where
  "sample_config =
     \<lparr> configPath = Some ''/repo/.eslintrc.json'', filePaths = [''src/app.js''],
       RunnerConfig.workingDirectory = ''.'' \<rparr>"

text \<open>
  A host on which the six tools that print JSON are installed and exit with 0, and
  none prints the document that its runner expects.  PHPStan and Stylelint print a
  line that is no JSON, and Rector prints its console report.  The document of PHPMD
  has \<^verbatim>\<open>null\<close> after its first file, that of ESLint has \<^verbatim>\<open>null\<close> after its first
  file, and that of PHP-CS-Fixer has an object where the runner expects the array of
  the files.
\<close>

definition phpstan_text :: string where
  "phpstan_text = ''Note: Using configuration file /repo/phpstan.neon.''"

definition stylelint_text :: string where
  "stylelint_text = ''Error: No configuration provided for /repo/src/app.css''"

definition rector_text :: string where
  "rector_text = ''1 file with changes'' @ [CHR 0x0A] @ ''1) src/Foo.php:12''"

definition phpmd_text :: string where
  "phpmd_text =
     ''{\"version\":\"2.15.0\",\"files\":[{\"file\":\"/repo/src/Foo.php\",\"violations\":[''
     @ ''{\"beginLine\":12,\"endLine\":12,\"rule\":\"UnusedLocalVariable\",\"priority\":3,''
     @ ''\"description\":\"Avoid unused local variables such as x.\"}]},null]}''"

definition phpmd_output :: json where
  "phpmd_output =
     JObj [(''version'', JStr ''2.15.0''),
           (''files'', JArr
              [JObj [(''file'', JStr ''/repo/src/Foo.php''),
                     (''violations'', JArr
                        [JObj [(''beginLine'', JNum 12), (''endLine'', JNum 12),
                               (''rule'', JStr ''UnusedLocalVariable''), (''priority'', JNum 3),
                               (''description'',
                                JStr ''Avoid unused local variables such as x.'')]])],
               JNull])]"

definition phpmd_issue :: Issue where
  "phpmd_issue =
     \<lparr> file' = ''/repo/src/Foo.php'', line = 12, column = None, severity = Error,
       message = ''Avoid unused local variables such as x.'',
       rule = Some ''UnusedLocalVariable'' \<rparr>"

definition fixer_text :: string where
  "fixer_text =
     ''{\"files\":{\"src/Foo.php\":{\"appliedFixers\":[\"braces\"],\"diff\":\"--- Original\"}}}''"

definition fixer_output :: json where
  "fixer_output =
     JObj [(''files'', JObj
              [(''src/Foo.php'', JObj [(''appliedFixers'', JArr [JStr ''braces'']),
                                       (''diff'', JStr ''--- Original'')])])]"

definition eslint_text :: string where
  "eslint_text =
     ''[{\"filePath\":\"/repo/src/app.js\",\"messages\":[''
     @ ''{\"ruleId\":\"no-undef\",\"severity\":2,\"message\":\"x is not defined\",\"line\":3,\"column\":1}''
     @ '']},null]''"

definition eslint_output :: json where
  "eslint_output =
     JArr [JObj [(''filePath'', JStr ''/repo/src/app.js''),
                 (''messages'', JArr
                    [JObj [(''ruleId'', JStr ''no-undef''), (''severity'', JNum 2),
                           (''message'', JStr ''x is not defined''),
                           (''line'', JNum 3), (''column'', JNum 1)]])],
           JNull]"

definition eslint_issue :: Issue where
  "eslint_issue =
     \<lparr> file' = ''/repo/src/app.js'', line = 3, column = Some 1, severity = Error,
       message = ''x is not defined'', rule = Some ''no-undef'' \<rparr>"

definition rector_issue :: Issue where
  "rector_issue =
     \<lparr> file' = ''src/Foo.php'', line = 1, column = None, severity = Warning,
       message = ''Rector suggests refactoring for this file'', rule = Some ''typo3-rector'' \<rparr>"

definition broken_host :: Host where
  "broken_host =
     sample_host\<lparr>
       exec_exec := (\<lambda>c a d.
         if c = ''vendor/bin/phpstan'' then Inr (0, phpstan_text, [])
         else if c = ''vendor/bin/phpmd'' then Inr (0, phpmd_text, [])
         else if c = ''vendor/bin/php-cs-fixer'' then Inr (0, fixer_text, [])
         else if c = ''npx'' \<and> take 1 a = [''eslint''] then Inr (0, eslint_text, [])
         else if c = ''npx'' \<and> take 1 a = [''stylelint''] then Inr (0, stylelint_text, [])
         else if c = ''vendor/bin/rector'' then Inr (0, rector_text, [])
         else Inl (Thrown ''Error'' ''Unable to locate executable file'')),
       JSON_parse := (\<lambda>s.
         if s = phpmd_text then Inr phpmd_output
         else if s = fixer_text then Inr fixer_output
         else if s = eslint_text then Inr eslint_output
         else Inl no_json)\<rparr>"

definition php_config :: RunnerConfig where
  "php_config =
     \<lparr> configPath = None, filePaths = [''src/Foo.php''],
       RunnerConfig.workingDirectory = ''.'' \<rparr>"

definition css_config :: RunnerConfig where
  "css_config =
     \<lparr> configPath = None, filePaths = [''src/app.css''],
       RunnerConfig.workingDirectory = ''.'' \<rparr>"

section \<open>The config resolver in the words of the spec\<close>

text \<open>
  Section 4.1 of the spec, to be compared with \<open>resolveConfig\<close>: the custom path when
  one is given and its file exists; otherwise the first conventional file name of the
  tool that is found in the working directory; otherwise the bundled default when
  there is one and it is on disk; otherwise no config.  A custom path is given when
  it is a non-empty string, which is what the entry point passes.
\<close>

definition resolveConfig_spec :: "Host \<Rightarrow> ToolName \<Rightarrow> string option \<Rightarrow> string \<Rightarrow> string option" where
  "resolveConfig_spec h t customPath wd =
     (if truthy_opt customPath \<and> fs_exists h (path_resolve h wd (the customPath))
      then Some (path_resolve h wd (the customPath))
      else (case find (\<lambda>f. fs_exists h (path_resolve h wd f)) (CONFIG_FILENAMES t) of
              Some f \<Rightarrow> Some (path_resolve h wd f)
            | None \<Rightarrow>
                if DEFAULT_CONFIGS h t \<noteq> [] \<and> fs_exists h (DEFAULT_CONFIGS h t)
                then Some (DEFAULT_CONFIGS h t) else None))"

text \<open>A host on which a custom ESLint config, a conventional one and bundled defaults
  are on disk.\<close>

definition config_host :: Host where
  "config_host =
     sample_host\<lparr>fs_exists := (\<lambda>p. p \<in> set [''/repo/ci/eslint.json'', ''/repo/.eslintrc.js'',
                                            ''/repo/eslint.config.js'',
                                            ''/action/dist/defaults/.eslintrc.json'',
                                            ''/action/dist/defaults/phpmd.xml''])\<rparr>"

text \<open>The sample host in a repository in which no pattern matches a file.\<close>

definition empty_host :: Host where
  "empty_host = sample_host\<lparr>glob_files := (\<lambda>p. Inr [])\<rparr>"

section \<open>Cache keys in the words of the spec\<close>

text \<open>The path of a lock file in the working directory, and the primary key
  \<^verbatim>\<open>{prefix}-{platform}-{packageManagerOrEcosystem}-{hashPrefix}\<close>.\<close>

definition lockPath :: "Host \<Rightarrow> CacheManager \<Rightarrow> string \<Rightarrow> string" where
  "lockPath h m n = path_join h [workingDirectory m, n]"

definition primary_key :: "Host \<Rightarrow> CacheManager \<Rightarrow> string \<Rightarrow> string \<Rightarrow> string" where
  "primary_key h m label hashPrefix =
     keyPrefix (config m) @ ''-'' @ process_platform h @ ''-'' @ label @ ''-'' @ hashPrefix"

definition hashPrefix :: "Host \<Rightarrow> string \<Rightarrow> string" where
  "hashPrefix h lockContent = take 8 (sha256_hex h lockContent)"

text \<open>
  A cache manager in the repository \<^verbatim>\<open>/repo\<close>, and a host on which the lock files
  \<open>ls\<close> are on disk; the content of a lock file is the word \<^verbatim>\<open>lock:\<close> and its path,
  and the digest is a fixed one for each of the three JS lock files.
\<close>

definition sample_manager :: CacheManager where
  "sample_manager =
     \<lparr> config = \<lparr> enabled = True, keyPrefix = ''code-quality-action'', composerCache = True,
                  composerVendor = True, npmCache = True, nodeModules = True \<rparr>,
       workingDirectory = ''/repo'',
       composerCacheDir = Some ''/home/runner/.cache/composer/files'',
       npmCacheDir = Some ''/home/runner/.npm'' \<rparr>"

definition sample_digest :: "string \<Rightarrow> string" where
  "sample_digest c =
     (if c = ''lock:/repo/pnpm-lock.yaml'' then ''9f2c41d07a''
      else if c = ''lock:/repo/yarn.lock'' then ''3b8e05c6f1''
      else if c = ''lock:/repo/package-lock.json'' then ''e47a1b92d3''
      else ''0c5d7e8f9a'')"

definition lock_host :: "string list \<Rightarrow> Host" where
  "lock_host ls =
     sample_host\<lparr>fs_exists := (\<lambda>p. p \<in> set ls),
                 fs_readFile := (\<lambda>p. if p \<in> set ls then Inr (''lock:'' @ p)
                                     else Inl (Thrown ''Error'' ''ENOENT'')),
                 sha256_hex := sample_digest\<rparr>"

text \<open>A host in the save phase: the vendor directory is on disk, and the state that
  the restore phase left holds the given value for the Composer hit and for the npm
  hit, and a key for each.\<close>

definition state_host :: "string \<Rightarrow> Host" where
  "state_host hit =
     sample_host\<lparr>fs_exists := (\<lambda>p. p \<in> set [''/repo/vendor'', ''/repo/node_modules'']),
                 core_getState := (\<lambda>k.
                   if k = ''composer-cache-hit'' \<or> k = ''npm-cache-hit'' then hit
                   else if k = ''composer-cache-key''
                     then ''code-quality-action-linux-composer-no-lock''
                   else if k = ''npm-cache-key''
                     then ''code-quality-action-linux-npm-no-lock''
                   else [])\<rparr>"

text \<open>The sample host with a glob primitive that throws.\<close>

definition globless_host :: Host where
  "globless_host =
     sample_host\<lparr>glob_files := (\<lambda>p. Inl (Thrown ''Error'' ''Invalid pattern''))\<rparr>"

text \<open>The values of \<^verbatim>\<open>process.platform\<close>.\<close>

definition node_platforms :: "string list" where
  "node_platforms =
     [''aix'', ''android'', ''darwin'', ''freebsd'', ''haiku'', ''linux'', ''openbsd'',
      ''sunos'', ''win32'', ''cygwin'', ''netbsd'']"

section \<open>Lemmas on traces\<close>

lemma trim_Nil [simp]: "trim [] = []"
  by (simp add: trim_def)

lemma quiet_simps [simp]:
  "quiet []"
  "quiet (a @ b) = (quiet a \<and> quiet b)"
  "quiet (e # a) = (\<not> is_annotation e \<and> \<not> is_verdict e \<and> quiet a)"
  by (auto simp: quiet_def)

lemma quiet_filter_verdict: "quiet tr \<Longrightarrow> filter is_verdict tr = []"
  by (auto simp: quiet_def filter_empty_conv list_all_iff)

lemma quiet_filter_annotation: "quiet tr \<Longrightarrow> filter is_annotation tr = []"
  by (auto simp: quiet_def filter_empty_conv list_all_iff)


lemma output_values_filter: "output_values n tr = output_values n (filter is_verdict tr)"
proof (induction tr)
  case Nil
  show ?case by simp
next
  case (Cons e tr)
  then show ?case by (cases e) simp_all
qed

lemma quiet_executeCommand: "quiet (snd (executeCommand h c a d))"
  by (simp add: executeCommand_def Let_def)

lemma quiet_finish_run:
  assumes "\<And>r. quiet (snd (ex r))"
  shows "quiet (snd (finish_run h b n c a d ex))"
proof -
  obtain x t where e: "executeCommand h c a d = (x, t)" by (cases "executeCommand h c a d")
  with quiet_executeCommand [of h c a d] have qt: "quiet t" by simp
  show ?thesis
  proof (cases x)
    case (Inl err)
    with e qt show ?thesis by (simp add: finish_run_def)
  next
    case (Inr r)
    obtain f w where x: "ex r = (f, w)" by (cases "ex r")
    with assms [of r] have "quiet w" by simp
    with e qt Inr x show ?thesis by (simp add: finish_run_def)
  qed
qed

lemma quiet_parse_guarded: "quiet (snd (parse_guarded h n c r))"
  by (simp add: parse_guarded_def split: prod.split option.split)

lemma quiet_Rector_extract: "quiet (snd (Rector_extract h r))"
  by (simp add: Rector_extract_def split: prod.split option.split)

lemmas runner_defs =
  PHPStanRunner_run_def PHPMDRunner_run_def PHPCSFixerRunner_run_def ESLintRunner_run_def
  StylelintRunner_run_def EditorConfigRunner_run_def ComposerNormalizeRunner_run_def
  Typo3RectorRunner_run_def

lemma quiet_runner_run: "quiet (snd (runner_run h t cfg))"
  by (cases t)
     (simp_all add: runner_defs Let_def quiet_finish_run quiet_parse_guarded quiet_Rector_extract)

lemma quiet_resolveConfig: "quiet (snd (resolveConfig h t c wd))"
  by (simp add: resolveConfig_def resolve_fallback_def Let_def split: option.split prod.split)

lemma quiet_findFiles: "quiet (snd (findFiles h p wd))"
  by (simp add: findFiles_def split: sum.split)

lemma quiet_tool_files: "quiet (snd (tool_files h t inputs))"
  by (cases t) (simp_all add: quiet_findFiles)

lemma quiet_checkToolAvailability: "quiet (snd (checkToolAvailability h t wd))"
proof -
  obtain x tr where
    e: "executeCommand h (fst (probe (TOOL_COMMANDS t))) (snd (probe (TOOL_COMMANDS t))) wd = (x, tr)"
    by (cases "executeCommand h (fst (probe (TOOL_COMMANDS t))) (snd (probe (TOOL_COMMANDS t))) wd")
  with quiet_executeCommand [of h "fst (probe (TOOL_COMMANDS t))" "snd (probe (TOOL_COMMANDS t))" wd]
  have "quiet tr" by simp
  with e show ?thesis by (cases x) (simp_all add: checkToolAvailability_def Let_def)
qed

lemma quiet_runTool_try: "quiet (snd (runTool_try h t inputs))"
proof -
  let ?wd = "ActionInputs.workingDirectory inputs"
  obtain av t1 where a: "checkToolAvailability h t ?wd = (av, t1)"
    by (cases "checkToolAvailability h t ?wd")
  with quiet_checkToolAvailability [of h t ?wd] have q1: "quiet t1" by simp
  obtain fr t2 where f: "tool_files h t inputs = (fr, t2)" by (cases "tool_files h t inputs")
  with quiet_tool_files [of h t inputs] have q2: "quiet t2" by simp
  obtain cp t3 where c: "resolveConfig h t (tool_config t inputs) ?wd = (cp, t3)"
    by (cases "resolveConfig h t (tool_config t inputs) ?wd")
  with quiet_resolveConfig [of h t "tool_config t inputs" ?wd] have q3: "quiet t3" by simp
  show ?thesis
  proof (cases fr)
    case (Inl e)
    with a f q1 q2 show ?thesis by (simp add: runTool_try_def logToolNotFound_def)
  next
    case (Inr fps)
    let ?rc = "\<lparr>configPath = cp, filePaths = fps, RunnerConfig.workingDirectory = ?wd\<rparr>"
    obtain rr t5 where r: "runner_run h t ?rc = (rr, t5)" by (cases "runner_run h t ?rc")
    with quiet_runner_run [of h t ?rc] have q5: "quiet t5" by simp
    from a f c r Inr q1 q2 q3 q5 show ?thesis
      by (cases rr) (simp_all add: runTool_try_def logToolNotFound_def Let_def)
  qed
qed

lemma quiet_runTool: "quiet (snd (runTool h t inputs))"
proof -
  obtain x tr where e: "runTool_try h t inputs = (x, tr)" by (cases "runTool_try h t inputs")
  with quiet_runTool_try [of h t inputs] have "quiet tr" by simp
  with e show ?thesis by (cases x) (simp_all add: runTool_def)
qed

lemma quiet_run_tools: "quiet (snd (run_tools h inputs ts))"
proof (induction ts)
  case Nil
  show ?case by simp
next
  case (Cons t ts)
  obtain r tr where a: "runTool h t inputs = (r, tr)" by (cases "runTool h t inputs")
  with quiet_runTool [of h t inputs] have q: "quiet tr" by simp
  obtain rs trs where b: "run_tools h inputs ts = (rs, trs)" by (cases "run_tools h inputs ts")
  with Cons a q show ?case by simp
qed

lemma quiet_summary_group: "quiet (snd (summary_group h r))"
  by (auto simp: summary_group_def Let_def quiet_def list_all_iff split: sum.split)

lemma quiet_summary_groups: "quiet (snd (summary_groups h rs))"
proof (induction rs)
  case Nil
  show ?case by simp
next
  case (Cons r rs)
  obtain x t where a: "summary_group h r = (x, t)" by (cases "summary_group h r")
  with quiet_summary_group [of h r] have q: "quiet t" by simp
  obtain y ts where b: "summary_groups h rs = (y, ts)" by (cases "summary_groups h rs")
  with Cons have "quiet ts" by simp
  with a b q show ?case by (cases x) simp_all
qed

lemma quiet_generateSummary: "quiet (snd (generateSummary h rs))"
proof -
  obtain y ts where b: "summary_groups h rs = (y, ts)" by (cases "summary_groups h rs")
  with quiet_summary_groups [of h rs] have "quiet ts" by simp
  with b show ?thesis
    by (simp add: generateSummary_def Let_def split: option.split)
qed

section \<open>Lemmas on the reporter\<close>

lemma foldl_issue_count:
  "foldl (\<lambda>sum r. sum + length (issues r)) a rs
     = a + sum_list (map (\<lambda>r. length (issues r)) rs)"
  by (induction rs arbitrary: a) simp_all

lemma sumIssues_sum_list:
  "sumIssues rs = sum_list (map (\<lambda>r. length (issues r)) rs)"
  by (simp add: sumIssues_def foldl_issue_count)

lemma length_generateAnnotations:
  "length (generateAnnotations rs) = sum_list (map (\<lambda>r. length (issues r)) rs)"
  by (induction rs) (simp_all add: generateAnnotations_def)

lemma all_annotations: "list_all is_annotation (generateAnnotations rs)"
  by (induction rs) (auto simp: generateAnnotations_def annotate_def Let_def list_all_iff)

lemma no_verdict_annotations: "filter is_verdict (generateAnnotations rs) = []"
  by (induction rs) (auto simp: generateAnnotations_def annotate_def Let_def filter_empty_conv)

lemma severity_partition:
  "length (filter (\<lambda>i. severity i = Error) xs) + length (filter (\<lambda>i. severity i = Warning) xs)
     = length xs"
proof (induction xs)
  case Nil
  show ?case by simp
next
  case (Cons i xs)
  then show ?case by (cases "severity i") simp_all
qed

text \<open>When the summary is generated without an error: the job summary is written,
  and the grouping meets no file that is named like an inherited property.\<close>

lemma no_issues: "sumIssues rs = 0 \<Longrightarrow> r \<in> set rs \<Longrightarrow> issues r = []"
  by (induction rs) (auto simp: sumIssues_sum_list)

lemma group_by_file_Inr:
  "(\<exists>g. group_by_file h acc xs = Inr g) \<longleftrightarrow> (\<forall>i \<in> set xs. file' i \<notin> set Object_prototype)"
  by (induction xs arbitrary: acc) auto

lemma summary_group_Inr:
  "fst (summary_group h r) = Inr () \<longleftrightarrow> (\<forall>i \<in> set (issues r). file' i \<notin> set Object_prototype)"
proof (cases "group_by_file h [] (issues r)")
  case (Inl e)
  with group_by_file_Inr [of h "[]" "issues r"]
  have "\<not> (\<forall>i \<in> set (issues r). file' i \<notin> set Object_prototype)" by simp
  moreover from this have "issues r \<noteq> []" by auto
  ultimately show ?thesis using Inl by (simp add: summary_group_def issuesByFile_def Let_def)
next
  case (Inr g)
  with group_by_file_Inr [of h "[]" "issues r"]
  have "\<forall>i \<in> set (issues r). file' i \<notin> set Object_prototype" by simp
  then show ?thesis using Inr by (simp add: summary_group_def issuesByFile_def Let_def)
qed

lemma summary_groups_Inr:
  "fst (summary_groups h rs) = Inr ()
     \<longleftrightarrow> (\<forall>r \<in> set rs. \<forall>i \<in> set (issues r). file' i \<notin> set Object_prototype)"
proof (induction rs)
  case Nil
  show ?case by simp
next
  case (Cons r rs)
  obtain x t where a: "summary_group h r = (x, t)" by (cases "summary_group h r")
  obtain y ts where b: "summary_groups h rs = (y, ts)" by (cases "summary_groups h rs")
  from a summary_group_Inr [of h r]
  have x: "x = Inr () \<longleftrightarrow> (\<forall>i \<in> set (issues r). file' i \<notin> set Object_prototype)" by simp
  from b Cons
  have y: "y = Inr () \<longleftrightarrow> (\<forall>r \<in> set rs. \<forall>i \<in> set (issues r). file' i \<notin> set Object_prototype)"
    by simp
  show ?case
  proof (cases x)
    case (Inl e)
    with a x show ?thesis by auto
  next
    case (Inr u)
    with a b x y show ?thesis by auto
  qed
qed

lemma generateSummary_Inr:
  "fst (generateSummary h rs) = Inr ()
     \<longleftrightarrow> summary_write h (summary_table rs) = None
         \<and> (\<forall>r \<in> set rs. \<forall>i \<in> set (issues r). file' i \<notin> set Object_prototype)"
proof (cases "summary_write h (summary_table rs)")
  case (Some e)
  then show ?thesis by (simp add: generateSummary_def Let_def)
next
  case None
  show ?thesis
  proof (cases "0 < sumIssues rs")
    case True
    obtain y ts where b: "summary_groups h rs = (y, ts)" by (cases "summary_groups h rs")
    with summary_groups_Inr [of h rs] None True show ?thesis
      by (simp add: generateSummary_def Let_def)
  next
    case False
    then have "\<forall>r \<in> set rs. issues r = []" using no_issues [of rs] by simp
    with None False show ?thesis by (simp add: generateSummary_def Let_def)
  qed
qed

section \<open>Lemmas on the entry point\<close>

text \<open>The verdicts of a run whose summary was generated: the three outputs, and the
  failure mark when the last statement sets one.\<close>

lemma run_written:
  assumes "fst (generateSummary h (fst (run_tools h inputs (tools inputs)))) = Inr ()"
  shows "filter is_verdict (run h inputs)
           = outputs h (fst (run_tools h inputs (tools inputs)))
             @ filter is_verdict
                 [decide (failOnErrors inputs)
                    (sumIssues (fst (run_tools h inputs (tools inputs))))]"
    and "last (run h inputs)
           = decide (failOnErrors inputs) (sumIssues (fst (run_tools h inputs (tools inputs))))"
    and "length (filter is_annotation (run h inputs))
           = sumIssues (fst (run_tools h inputs (tools inputs)))"
proof -
  obtain rs t1 where a: "run_tools h inputs (tools inputs) = (rs, t1)"
    by (cases "run_tools h inputs (tools inputs)")
  with quiet_run_tools [of h inputs "tools inputs"] have q1: "quiet t1" by simp
  obtain x t3 where b: "generateSummary h rs = (x, t3)" by (cases "generateSummary h rs")
  with quiet_generateSummary [of h rs] have q3: "quiet t3" by simp
  from assms a b have x: "x = Inr ()" by simp
  have r: "run h inputs =
      [CoreInfo ''Starting code quality checks...'',
       CoreInfo (''Tools to run: '' @ join '', '' (map tool_id (tools inputs)))]
      @ t1 @ generateAnnotations rs @ t3 @ outputs h rs
      @ [decide (failOnErrors inputs) (sumIssues rs)]"
    using a b x by (simp add: run_def)
  have o: "filter is_verdict (outputs h rs) = outputs h rs"
          "filter is_annotation (outputs h rs) = []"
    by (simp_all add: outputs_def Let_def)
  have d: "\<not> is_annotation (decide f n)" for f n by (simp add: decide_def)
  show "filter is_verdict (run h inputs)
           = outputs h (fst (run_tools h inputs (tools inputs)))
             @ filter is_verdict
                 [decide (failOnErrors inputs)
                    (sumIssues (fst (run_tools h inputs (tools inputs))))]"
    using a q1 q3 o by (simp add: r quiet_filter_verdict no_verdict_annotations)
  show "last (run h inputs)
          = decide (failOnErrors inputs) (sumIssues (fst (run_tools h inputs (tools inputs))))"
    using a by (simp add: r)
  have fa: "filter is_annotation (generateAnnotations rs) = generateAnnotations rs"
    using all_annotations [of rs] by (simp add: filter_id_conv list_all_iff)
  show "length (filter is_annotation (run h inputs))
          = sumIssues (fst (run_tools h inputs (tools inputs)))"
    using a q1 q3 o d
    by (simp add: r quiet_filter_annotation fa length_generateAnnotations sumIssues_sum_list)
qed


text \<open>The run of the sample host: what the tools return.\<close>

lemmas json_defs =
  try_block_def read_property_def truthy_json_def as_string_def as_string_opt_def
  as_number_opt_def line_or_one_def rule_or_def le_js_def gt_js_def compare_js_def
  array_join_def show_number_def

lemmas collect_defs =
  PHPStan_collect_def PHPStan_file_def PHPStan_message_def
  PHPMD_collect_def PHPMD_file_def PHPMD_violation_def
  PHPCSFixer_collect_def PHPCSFixer_file_def joined_fixers_def
  ESLint_collect_def ESLint_file_def ESLint_message_def
  Stylelint_collect_def Stylelint_file_def Stylelint_warning_def
  Rector_collect_def Rector_file_def Rector_diff_def

lemmas sample_defs =
  runTool_def runTool_try_def checkToolAvailability_def
  probe_def executeCommand_def findFiles_def resolveConfig_def resolve_fallback_def
  finish_run_def parse_guarded_def config_args_def path_args_def ESLintRunner_run_def
  StylelintRunner_run_def json_defs collect_defs truthy_def truthy_opt_def
  trim_def is_ws_def Let_def sample_host_def sample_inputs_def
  sample_eslint_json_def sample_eslint_output_def no_json_def string_of_nat.simps

lemma sample_run_tools:
  "fst (run_tools sample_host sample_inputs (tools sample_inputs)) = sample_results"
  by (simp add: sample_defs sample_results_def sample_issues_def)

lemma sample_summary: "fst (generateSummary sample_host sample_results) = Inr ()"
  by (simp add: generateSummary_Inr sample_host_def sample_results_def sample_issues_def
        Object_prototype_def)

lemma sample_sumIssues: "sumIssues sample_results = 3"
  by (simp add: sumIssues_def sample_results_def sample_issues_def)



section \<open>Totals and verdict of a run: C8, C10, C2\<close>

text \<open>
  C8.  For every sequence of tool results, the value of the \<^verbatim>\<open>total-issues\<close> output
  is the sum of the lengths of the issue lists; the \<^verbatim>\<open>totalIssues\<close> field of the
  report that is serialised into the \<^verbatim>\<open>report\<close> output is the same number; and so is
  the number of annotations that \<^verbatim>\<open>generateAnnotations\<close> emits, each of them an
  annotation of one issue.
\<close>

theorem total_issues_agree:
  "output_values ''total-issues'' (outputs h rs)
     = [OutNum (sum_list (map (\<lambda>r. length (issues r)) rs))]
   \<and> output_values ''report'' (outputs h rs) = [OutStr (JSON_stringify h (reportObject rs))]
   \<and> totalIssues (reportObject rs) = sum_list (map (\<lambda>r. length (issues r)) rs)
   \<and> length (generateAnnotations rs) = sum_list (map (\<lambda>r. length (issues r)) rs)
   \<and> generateAnnotations rs = concat (map (\<lambda>r. map (annotate (tool r)) (issues r)) rs)
   \<and> list_all is_annotation (generateAnnotations rs)"
  by (simp add: outputs_def Let_def getReport_def reportObject_def sumIssues_sum_list
        length_generateAnnotations all_annotations)
     (simp add: generateAnnotations_def)

text \<open>
  C10.  In the report of \<^verbatim>\<open>getReport\<close>, the number of errors and the number of
  warnings of every entry add up to its issue count.
\<close>

theorem report_entry_counts:
  "\<forall>e \<in> set (results (reportObject rs)). errors e + warnings e = issueCount e"
  by (auto simp: reportObject_def reportEntry_def severity_partition)

theorem report_entry_counts_witness:
  "map (\<lambda>e. (errors e, warnings e, issueCount e)) (results (reportObject sample_results))
     = [(2, 1, 3), (0, 0, 0)]
   \<and> errors (hd (results (reportObject sample_results)))
       + warnings (hd (results (reportObject sample_results)))
     = issueCount (hd (results (reportObject sample_results)))"
  using report_entry_counts [of sample_results]
  by (simp add: reportObject_def reportEntry_def sample_results_def sample_issues_def)




section \<open>The runners: C3, C9\<close>

lemma finish_run_result:
  assumes "finish_run h b n c a d ex = (Inr res, tr)"
    and "\<And>r. filter is_exec (snd (ex r)) = []"
  shows "\<exists>dir code out err.
           filter is_exec tr = [ExecExec c a dir]
         \<and> exec_exec h c a dir = Inr (code, out, err)
         \<and> (success res \<longleftrightarrow> code = 0)"
proof -
  let ?dir = "if truthy d then d else process_cwd h"
  show ?thesis
  proof (cases "exec_exec h c a ?dir")
    case (Inl e)
    with assms(1) show ?thesis by (simp add: finish_run_def executeCommand_def Let_def)
  next
    case (Inr p)
    obtain code out err where p: "p = (code, out, err)" by (cases p)
    let ?r = "\<lparr> exitCode = code, stdout = trim out, stderr = trim err \<rparr>"
    obtain f w where x: "ex ?r = (f, w)" by (cases "ex ?r")
    with assms(2) [of ?r] have w: "filter is_exec w = []" by simp
    from assms(1) Inr p x w
    have "filter is_exec tr = [ExecExec c a ?dir] \<and> (success res \<longleftrightarrow> code = 0)"
      by (auto simp: finish_run_def executeCommand_def Let_def)
    with Inr p show ?thesis by blast
  qed
qed

lemma no_exec_parse_guarded: "filter is_exec (snd (parse_guarded h n c r)) = []"
  by (simp add: parse_guarded_def split: prod.split option.split)

lemma no_exec_Rector_extract: "filter is_exec (snd (Rector_extract h r)) = []"
  by (simp add: Rector_extract_def split: prod.split option.split)

text \<open>Every runner is \<open>finish_run\<close> at its banner, its name, its command line and its
  extraction.\<close>

lemma runner_run_parts:
  "runner_run h t cfg
     = finish_run h
         (if t = editorconfig then ''Running EditorConfig CLI...''
          else ''Running '' @ runner_name t @ ''...'')
         (runner_name t) (fst (runner_command t cfg)) (snd (runner_command t cfg))
         (RunnerConfig.workingDirectory cfg)
         (if t = editorconfig then (\<lambda>r. (EditorConfig_issues r, []))
          else if t = composer_normalize then (\<lambda>r. (ComposerNormalize_issues cfg r, []))
          else if t = typo3_rector then Rector_extract h
          else parse_guarded h (runner_name t) (runner_collect h t))"
  by (cases t) (simp_all add: runner_defs Let_def)

text \<open>Every runner is an instance of \<open>finish_run\<close> whose extraction executes nothing.\<close>

lemma runner_is_finish_run:
  "\<exists>b n c a d ex. runner_run h t cfg = finish_run h b n c a d ex
     \<and> (\<forall>r. filter is_exec (snd (ex r)) = [])"
  by (intro exI conjI, rule runner_run_parts)
     (simp add: no_exec_parse_guarded no_exec_Rector_extract)

text \<open>
  C3.  When a runner returns a result, its trace holds one execution of an external
  command, the host answered that execution with an exit code, and \<^verbatim>\<open>success\<close> is
  true exactly when that exit code is 0: the issues have no part in it.  In the
  instance below ESLint exits with 0 and three issues are parsed from its output.
\<close>

theorem runner_success_iff_exit_zero:
  assumes "runner_run h t cfg = (Inr res, tr)"
  shows "\<exists>command args dir code out err.
           filter is_exec tr = [ExecExec command args dir]
         \<and> exec_exec h command args dir = Inr (code, out, err)
         \<and> (success res \<longleftrightarrow> code = 0)"
proof -
  from runner_is_finish_run [of h t cfg] assms
  obtain b n c a d ex where f: "finish_run h b n c a d ex = (Inr res, tr)"
    and x: "\<And>r. filter is_exec (snd (ex r)) = []"
    by auto
  from finish_run_result [OF f x] show ?thesis by blast
qed

theorem runner_success_iff_exit_zero_witness:
  "runner_run sample_host eslint sample_config
     = (Inr (hd sample_results),
        [CoreInfo ''Running ESLint...'',
         ExecExec ''npx'' [''eslint'', ''--format=json'', ''-c'', ''/repo/.eslintrc.json'',
                           ''src/app.js''] ''.''])
   \<and> success (hd sample_results)
   \<and> length (issues (hd sample_results)) = 3
   \<and> (\<exists>command args dir code out err.
         filter is_exec
           [CoreInfo ''Running ESLint...'',
            ExecExec ''npx'' [''eslint'', ''--format=json'', ''-c'', ''/repo/.eslintrc.json'',
                              ''src/app.js''] ''.'']
           = [ExecExec command args dir]
       \<and> exec_exec sample_host command args dir = Inr (code, out, err)
       \<and> (success (hd sample_results) \<longleftrightarrow> code = 0))"
proof -
  have e: "runner_run sample_host eslint sample_config
     = (Inr (hd sample_results),
        [CoreInfo ''Running ESLint...'',
         ExecExec ''npx'' [''eslint'', ''--format=json'', ''-c'', ''/repo/.eslintrc.json'',
                           ''src/app.js''] ''.''])"
    by (simp add: sample_defs sample_config_def sample_results_def sample_issues_def)
  have s: "success (hd sample_results)" "length (issues (hd sample_results)) = 3"
    by (simp_all add: sample_results_def sample_issues_def)
  from runner_success_iff_exit_zero [OF e] e s show ?thesis by simp
qed

text \<open>The result and the trace of \<open>finish_run\<close> when the command returns.\<close>

lemma finish_run_returns:
  assumes "exec_exec h c a (if truthy d then d else process_cwd h) = Inr (code, out, err)"
  shows "finish_run h b n c a d ex
           = (Inr \<lparr> tool = n, success = (code = 0),
                    issues = fst (ex \<lparr> exitCode = code, stdout = trim out, stderr = trim err \<rparr>),
                    rawOutput = trim out @ trim err \<rparr>,
              CoreInfo b # ExecExec c a (if truthy d then d else process_cwd h)
              # snd (ex \<lparr> exitCode = code, stdout = trim out, stderr = trim err \<rparr>))"
  using assms by (simp add: finish_run_def executeCommand_def Let_def split: prod.split)

text \<open>The texts that the tools print on the host where none prints its document, and
  what the \<^verbatim>\<open>try\<close> block of each runner does on them.\<close>

lemma broken_trim:
  "trim phpstan_text = phpstan_text"
  "trim phpmd_text = phpmd_text"
  "trim fixer_text = fixer_text"
  "trim eslint_text = eslint_text"
  "trim stylelint_text = stylelint_text"
  "trim rector_text = rector_text"
  by (simp_all add: phpstan_text_def phpmd_text_def fixer_text_def eslint_text_def
        stylelint_text_def rector_text_def trim_def is_ws_def)

lemma broken_parse:
  "JSON_parse broken_host phpstan_text = Inl no_json"
  "JSON_parse broken_host phpmd_text = Inr phpmd_output"
  "JSON_parse broken_host fixer_text = Inr fixer_output"
  "JSON_parse broken_host eslint_text = Inr eslint_output"
  "JSON_parse broken_host stylelint_text = Inl no_json"
  "JSON_parse broken_host rector_text = Inl no_json"
  by (simp_all add: broken_host_def phpstan_text_def phpmd_text_def fixer_text_def
        eslint_text_def stylelint_text_def rector_text_def)

lemma broken_type_error: "type_error broken_host = v8_type_error"
  by (simp add: broken_host_def sample_host_def)

lemma broken_try:
  "try_block broken_host (runner_collect broken_host phpstan) phpstan_text = (Some no_json, [])"
  "try_block broken_host (runner_collect broken_host phpmd) phpmd_text
     = (Some (v8_type_error (ReadOfNull ''violations'')), [phpmd_issue])"
  "try_block broken_host (runner_collect broken_host php_cs_fixer) fixer_text
     = (Some (v8_type_error (NotIterable ''output.files'')), [])"
  "try_block broken_host (runner_collect broken_host eslint) eslint_text
     = (Some (v8_type_error (ReadOfNull ''messages'')), [eslint_issue])"
  "try_block broken_host (runner_collect broken_host stylelint) stylelint_text
     = (Some no_json, [])"
  "try_block broken_host (runner_collect broken_host typo3_rector) rector_text
     = (Some no_json, [])"
  by (simp_all add: try_block_def broken_parse broken_type_error phpmd_output_def
        fixer_output_def eslint_output_def phpmd_issue_def eslint_issue_def
        read_property_def truthy_json_def as_string_def as_string_opt_def as_number_opt_def
        line_or_one_def le_js_def compare_js_def PHPMD_collect_def PHPMD_file_def
        PHPMD_violation_def PHPCSFixer_collect_def ESLint_collect_def ESLint_file_def
        ESLint_message_def)

lemma rector_fallback:
  "concat (map Rector_text_line (split_on CHR 0x0A rector_text)) = [rector_issue]"
  by (simp add: rector_text_def rector_issue_def Rector_text_line_def numbered_line_def
        php_at_def is_ws_def is_digit_def)

lemma broken_exec:
  "exec_exec broken_host ''vendor/bin/phpstan'' a d = Inr (0, phpstan_text, [])"
  "exec_exec broken_host ''vendor/bin/phpmd'' a d = Inr (0, phpmd_text, [])"
  "exec_exec broken_host ''vendor/bin/php-cs-fixer'' a d = Inr (0, fixer_text, [])"
  "exec_exec broken_host ''npx'' (''eslint'' # a) d = Inr (0, eslint_text, [])"
  "exec_exec broken_host ''npx'' (''stylelint'' # a) d = Inr (0, stylelint_text, [])"
  "exec_exec broken_host ''vendor/bin/rector'' a d = Inr (0, rector_text, [])"
  by (simp_all add: broken_host_def)

lemmas command_defs =
  config_args_def path_args_def exec_cwd_def truthy_def truthy_opt_def php_config_def
  css_config_def sample_config_def

text \<open>
  C9 as the spec states it fails, in two ways.  The \<^verbatim>\<open>catch\<close> block of the Rector
  runner goes on to read the output as text: Rector exits with 0 and prints two lines
  that are no JSON, and the result has \<^verbatim>\<open>success = true\<close> and one issue.  And an issue
  that was pushed before the failure stays in the result: ESLint exits with 0 and
  prints an array whose second element is \<^verbatim>\<open>null\<close>; the loop pushes the issue of the
  first element and throws on the second, the same warning is logged, and the result
  has \<^verbatim>\<open>success = true\<close> and one issue.
\<close>

theorem caught_failure_with_issues:
  "exec_exec broken_host ''vendor/bin/rector''
       [''process'', ''--dry-run'', ''--output-format=json'', ''src/Foo.php''] ''.''
     = Inr (0, rector_text, [])
   \<and> JSON_parse broken_host rector_text = Inl no_json
   \<and> runner_run broken_host typo3_rector php_config
     = (Inr \<lparr> tool = ''TYPO3 Rector'', success = True, issues = [rector_issue],
              rawOutput = rector_text \<rparr>,
        [CoreInfo ''Running TYPO3 Rector...'',
         ExecExec ''vendor/bin/rector''
           [''process'', ''--dry-run'', ''--output-format=json'', ''src/Foo.php''] ''.'',
         CoreWarning ''Failed to parse Rector JSON output: SyntaxError: Unexpected token''
           None])
   \<and> exec_exec broken_host ''npx''
         [''eslint'', ''--format=json'', ''-c'', ''/repo/.eslintrc.json'', ''src/app.js''] ''.''
       = Inr (0, eslint_text, [])
   \<and> JSON_parse broken_host eslint_text = Inr eslint_output
   \<and> runner_run broken_host eslint sample_config
     = (Inr \<lparr> tool = ''ESLint'', success = True, issues = [eslint_issue],
              rawOutput = eslint_text \<rparr>,
        [CoreInfo ''Running ESLint...'',
         ExecExec ''npx'' [''eslint'', ''--format=json'', ''-c'', ''/repo/.eslintrc.json'',
                           ''src/app.js''] ''.'',
         CoreWarning (''Failed to parse ESLint output: ''
                      @ error_string (v8_type_error (ReadOfNull ''messages''))) None])"
proof -
  have r: "runner_run broken_host typo3_rector php_config
     = (Inr \<lparr> tool = ''TYPO3 Rector'', success = True, issues = [rector_issue],
              rawOutput = rector_text \<rparr>,
        [CoreInfo ''Running TYPO3 Rector...'',
         ExecExec ''vendor/bin/rector''
           [''process'', ''--dry-run'', ''--output-format=json'', ''src/Foo.php''] ''.'',
         CoreWarning ''Failed to parse Rector JSON output: SyntaxError: Unexpected token''
           None])"
    using broken_try(6) [unfolded runner_collect.simps] rector_fallback
    by (simp add: Typo3RectorRunner_run_def Let_def command_defs
          finish_run_returns [OF broken_exec(6)] broken_trim Rector_extract_def)
       (simp add: rector_text_def no_json_def error_string_def)
  have e: "runner_run broken_host eslint sample_config
     = (Inr \<lparr> tool = ''ESLint'', success = True, issues = [eslint_issue],
              rawOutput = eslint_text \<rparr>,
        [CoreInfo ''Running ESLint...'',
         ExecExec ''npx'' [''eslint'', ''--format=json'', ''-c'', ''/repo/.eslintrc.json'',
                           ''src/app.js''] ''.'',
         CoreWarning (''Failed to parse ESLint output: ''
                      @ error_string (v8_type_error (ReadOfNull ''messages''))) None])"
    using broken_try(4) [unfolded runner_collect.simps]
    by (simp add: ESLintRunner_run_def Let_def command_defs
          finish_run_returns [OF broken_exec(4)] broken_trim parse_guarded_def)
       (simp add: eslint_text_def)
  from r e show ?thesis by (simp add: broken_exec broken_parse)
qed

text \<open>
  C9, amended.  Let the command of a runner that reads JSON return, with any exit
  code, and let its (trimmed) standard output be not empty.  Whenever reading that
  output fails, the failure is caught: whether \<^verbatim>\<open>JSON.parse\<close> throws on the output
  or the loops throw on a document of another shape, the runner returns a result and
  the one warning that it logs is the parse failure, with the error that was thrown.
  In that result \<^verbatim>\<open>success\<close> is true exactly when the exit code is 0, and the
  issues are those that were pushed before the error was thrown, none of them when
  it is \<^verbatim>\<open>JSON.parse\<close> that throws; the Rector runner adds those that its text
  fallback finds in the lines of the output.
\<close>

theorem read_failure_caught:
  assumes "t \<noteq> editorconfig" and "t \<noteq> composer_normalize"
    and "exec_exec h (fst (runner_command t cfg)) (snd (runner_command t cfg)) (exec_cwd h cfg)
           = Inr (code, out, err)"
    and "trim out \<noteq> []"
    and "try_block h (runner_collect h t) (trim out) = (Some e, pushed)"
  shows "runner_run h t cfg
           = (Inr \<lparr> tool = runner_name t, success = (code = 0),
                    issues = pushed
                      @ (if t = typo3_rector
                         then concat (map Rector_text_line (split_on CHR 0x0A (trim out)))
                         else []),
                    rawOutput = trim out @ trim err \<rparr>,
              [CoreInfo (''Running '' @ runner_name t @ ''...''),
               ExecExec (fst (runner_command t cfg)) (snd (runner_command t cfg)) (exec_cwd h cfg),
               CoreWarning (''Failed to parse ''
                            @ (if t = typo3_rector then ''Rector JSON'' else runner_name t)
                            @ '' output: '' @ error_string e) None])
       \<and> (\<forall>e'. JSON_parse h (trim out) = Inl e' \<longrightarrow> e' = e \<and> pushed = [])"
proof
  from assms(3)
  have x: "exec_exec h (fst (runner_command t cfg)) (snd (runner_command t cfg))
             (if truthy (RunnerConfig.workingDirectory cfg) then RunnerConfig.workingDirectory cfg
              else process_cwd h) = Inr (code, out, err)"
    by (simp add: exec_cwd_def)
  show "runner_run h t cfg
           = (Inr \<lparr> tool = runner_name t, success = (code = 0),
                    issues = pushed
                      @ (if t = typo3_rector
                         then concat (map Rector_text_line (split_on CHR 0x0A (trim out)))
                         else []),
                    rawOutput = trim out @ trim err \<rparr>,
              [CoreInfo (''Running '' @ runner_name t @ ''...''),
               ExecExec (fst (runner_command t cfg)) (snd (runner_command t cfg)) (exec_cwd h cfg),
               CoreWarning (''Failed to parse ''
                            @ (if t = typo3_rector then ''Rector JSON'' else runner_name t)
                            @ '' output: '' @ error_string e) None])"
  proof (cases "t = typo3_rector")
    case True
    with assms(5) have "try_block h (Rector_collect h) (trim out) = (Some e, pushed)" by simp
    with True assms(4) show ?thesis
      unfolding runner_run_parts finish_run_returns [OF x]
      by (simp add: exec_cwd_def Rector_extract_def truthy_def)
  next
    case False
    with assms(1,2,4,5) show ?thesis
      unfolding runner_run_parts finish_run_returns [OF x]
      by (simp add: exec_cwd_def parse_guarded_def truthy_def)
  qed
  show "\<forall>e'. JSON_parse h (trim out) = Inl e' \<longrightarrow> e' = e \<and> pushed = []"
    using assms(5) by (auto simp: try_block_def)
qed

theorem read_failure_caught_witness:
  "exec_exec broken_host ''vendor/bin/phpstan''
       [''analyze'', ''--error-format=json'', ''--no-progress'', ''src/Foo.php''] ''.''
     = Inr (0, phpstan_text, [])
   \<and> try_block broken_host (runner_collect broken_host phpstan) (trim phpstan_text)
     = (Some no_json, [])
   \<and> runner_run broken_host phpstan php_config
     = (Inr \<lparr> tool = ''PHPStan'', success = True, issues = [], rawOutput = phpstan_text \<rparr>,
        [CoreInfo ''Running PHPStan...'',
         ExecExec ''vendor/bin/phpstan''
           [''analyze'', ''--error-format=json'', ''--no-progress'', ''src/Foo.php''] ''.'',
         CoreWarning (''Failed to parse PHPStan output: '' @ error_string no_json) None])
   \<and> exec_exec broken_host ''vendor/bin/phpmd''
         [''src/Foo.php'', ''json'',
          ''cleancode,codesize,controversial,design,naming,unusedcode''] ''.''
       = Inr (0, phpmd_text, [])
   \<and> try_block broken_host (runner_collect broken_host phpmd) (trim phpmd_text)
     = (Some (v8_type_error (ReadOfNull ''violations'')), [phpmd_issue])
   \<and> runner_run broken_host phpmd php_config
     = (Inr \<lparr> tool = ''PHPMD'', success = True, issues = [phpmd_issue],
              rawOutput = phpmd_text \<rparr>,
        [CoreInfo ''Running PHPMD...'',
         ExecExec ''vendor/bin/phpmd''
           [''src/Foo.php'', ''json'',
            ''cleancode,codesize,controversial,design,naming,unusedcode''] ''.'',
         CoreWarning (''Failed to parse PHPMD output: ''
                      @ error_string (v8_type_error (ReadOfNull ''violations''))) None])
   \<and> exec_exec broken_host ''vendor/bin/php-cs-fixer''
         [''fix'', ''--dry-run'', ''--format=json'', ''--diff'', ''src/Foo.php''] ''.''
       = Inr (0, fixer_text, [])
   \<and> try_block broken_host (runner_collect broken_host php_cs_fixer) (trim fixer_text)
     = (Some (v8_type_error (NotIterable ''output.files'')), [])
   \<and> runner_run broken_host php_cs_fixer php_config
     = (Inr \<lparr> tool = ''PHP-CS-Fixer'', success = True, issues = [], rawOutput = fixer_text \<rparr>,
        [CoreInfo ''Running PHP-CS-Fixer...'',
         ExecExec ''vendor/bin/php-cs-fixer''
           [''fix'', ''--dry-run'', ''--format=json'', ''--diff'', ''src/Foo.php''] ''.'',
         CoreWarning (''Failed to parse PHP-CS-Fixer output: ''
                      @ error_string (v8_type_error (NotIterable ''output.files''))) None])
   \<and> exec_exec broken_host ''npx''
         [''eslint'', ''--format=json'', ''-c'', ''/repo/.eslintrc.json'', ''src/app.js''] ''.''
       = Inr (0, eslint_text, [])
   \<and> try_block broken_host (runner_collect broken_host eslint) (trim eslint_text)
     = (Some (v8_type_error (ReadOfNull ''messages'')), [eslint_issue])
   \<and> runner_run broken_host eslint sample_config
     = (Inr \<lparr> tool = ''ESLint'', success = True, issues = [eslint_issue],
              rawOutput = eslint_text \<rparr>,
        [CoreInfo ''Running ESLint...'',
         ExecExec ''npx'' [''eslint'', ''--format=json'', ''-c'', ''/repo/.eslintrc.json'',
                           ''src/app.js''] ''.'',
         CoreWarning (''Failed to parse ESLint output: ''
                      @ error_string (v8_type_error (ReadOfNull ''messages''))) None])
   \<and> exec_exec broken_host ''npx'' [''stylelint'', ''--formatter=json'', ''src/app.css''] ''.''
       = Inr (0, stylelint_text, [])
   \<and> try_block broken_host (runner_collect broken_host stylelint) (trim stylelint_text)
     = (Some no_json, [])
   \<and> runner_run broken_host stylelint css_config
     = (Inr \<lparr> tool = ''Stylelint'', success = True, issues = [],
              rawOutput = stylelint_text \<rparr>,
        [CoreInfo ''Running Stylelint...'',
         ExecExec ''npx'' [''stylelint'', ''--formatter=json'', ''src/app.css''] ''.'',
         CoreWarning (''Failed to parse Stylelint output: '' @ error_string no_json) None])
   \<and> exec_exec broken_host ''vendor/bin/rector''
         [''process'', ''--dry-run'', ''--output-format=json'', ''src/Foo.php''] ''.''
       = Inr (0, rector_text, [])
   \<and> try_block broken_host (runner_collect broken_host typo3_rector) (trim rector_text)
     = (Some no_json, [])
   \<and> runner_run broken_host typo3_rector php_config
     = (Inr \<lparr> tool = ''TYPO3 Rector'', success = True, issues = [rector_issue],
              rawOutput = rector_text \<rparr>,
        [CoreInfo ''Running TYPO3 Rector...'',
         ExecExec ''vendor/bin/rector''
           [''process'', ''--dry-run'', ''--output-format=json'', ''src/Foo.php''] ''.'',
         CoreWarning (''Failed to parse Rector JSON output: '' @ error_string no_json) None])"
proof -
  have x1: "exec_exec broken_host (fst (runner_command phpstan php_config))
              (snd (runner_command phpstan php_config)) (exec_cwd broken_host php_config)
            = Inr (0, phpstan_text, [])"
    and x2: "exec_exec broken_host (fst (runner_command phpmd php_config))
              (snd (runner_command phpmd php_config)) (exec_cwd broken_host php_config)
            = Inr (0, phpmd_text, [])"
    and x3: "exec_exec broken_host (fst (runner_command php_cs_fixer php_config))
              (snd (runner_command php_cs_fixer php_config)) (exec_cwd broken_host php_config)
            = Inr (0, fixer_text, [])"
    and x4: "exec_exec broken_host (fst (runner_command eslint sample_config))
              (snd (runner_command eslint sample_config)) (exec_cwd broken_host sample_config)
            = Inr (0, eslint_text, [])"
    and x5: "exec_exec broken_host (fst (runner_command stylelint css_config))
              (snd (runner_command stylelint css_config)) (exec_cwd broken_host css_config)
            = Inr (0, stylelint_text, [])"
    and x6: "exec_exec broken_host (fst (runner_command typo3_rector php_config))
              (snd (runner_command typo3_rector php_config)) (exec_cwd broken_host php_config)
            = Inr (0, rector_text, [])"
    by (simp_all add: broken_exec)
  have n: "trim phpstan_text \<noteq> []" "trim phpmd_text \<noteq> []" "trim fixer_text \<noteq> []"
          "trim eslint_text \<noteq> []" "trim stylelint_text \<noteq> []" "trim rector_text \<noteq> []"
    by (simp_all add: broken_trim)
       (simp_all add: phpstan_text_def phpmd_text_def fixer_text_def eslint_text_def
          stylelint_text_def rector_text_def)
  have b: "try_block broken_host (runner_collect broken_host phpstan) (trim phpstan_text)
             = (Some no_json, [])"
          "try_block broken_host (runner_collect broken_host phpmd) (trim phpmd_text)
             = (Some (v8_type_error (ReadOfNull ''violations'')), [phpmd_issue])"
          "try_block broken_host (runner_collect broken_host php_cs_fixer) (trim fixer_text)
             = (Some (v8_type_error (NotIterable ''output.files'')), [])"
          "try_block broken_host (runner_collect broken_host eslint) (trim eslint_text)
             = (Some (v8_type_error (ReadOfNull ''messages'')), [eslint_issue])"
          "try_block broken_host (runner_collect broken_host stylelint) (trim stylelint_text)
             = (Some no_json, [])"
          "try_block broken_host (runner_collect broken_host typo3_rector) (trim rector_text)
             = (Some no_json, [])"
    by (simp_all only: broken_trim broken_try)
  show ?thesis
    using read_failure_caught [OF _ _ x1 n(1) b(1)] read_failure_caught [OF _ _ x2 n(2) b(2)]
      read_failure_caught [OF _ _ x3 n(3) b(3)] read_failure_caught [OF _ _ x4 n(4) b(4)]
      read_failure_caught [OF _ _ x5 n(5) b(5)] read_failure_caught [OF _ _ x6 n(6) b(6)] b
    by (simp add: command_defs broken_trim broken_exec rector_fallback)
qed

section \<open>The config resolver: C4\<close>

lemma search_configs_find:
  "search_configs h wd fs
     = map_option (\<lambda>f. (f, path_resolve h wd f))
         (find (\<lambda>f. fs_exists h (path_resolve h wd f)) fs)"
  by (induction fs) (simp_all add: Let_def)

lemma resolve_fallback_spec:
  "fst (resolve_fallback h t wd) = resolveConfig_spec h t None wd"
  by (simp add: resolve_fallback_def resolveConfig_spec_def search_configs_find truthy_opt_def
        truthy_def Let_def split: option.split)

lemma resolve_fallback_exists:
  "fst (resolve_fallback h t wd) = Some p \<Longrightarrow> fs_exists h p"
  by (auto simp: resolve_fallback_def search_configs_find Let_def find_Some_iff
           split: option.splits if_splits)

text \<open>
  C4.  The path that \<open>resolveConfig\<close> returns is the one that the priority order of
  the spec gives.  For a custom path that is given, the result is the resolved custom
  path exactly when the file exists; when it does not exist, a warning is logged
  first and the result is that of the search without a custom path.  The function
  returns a path or \<^verbatim>\<open>undefined\<close> and never throws.
\<close>

theorem resolveConfig_priority:
  "fst (resolveConfig h t c wd) = resolveConfig_spec h t c wd
   \<and> (truthy_opt c \<longrightarrow>
        (fst (resolveConfig h t c wd) = Some (path_resolve h wd (the c))
           \<longleftrightarrow> fs_exists h (path_resolve h wd (the c))))
   \<and> (truthy_opt c \<and> \<not> fs_exists h (path_resolve h wd (the c)) \<longrightarrow>
        resolveConfig h t c wd
          = (resolveConfig_spec h t None wd,
             CoreWarning (''Custom config not found for '' @ tool_id t @ '': '' @ the c) None
             # snd (resolve_fallback h t wd)))"
proof (intro conjI impI)
  show "fst (resolveConfig h t c wd) = resolveConfig_spec h t c wd"
  proof (cases "truthy_opt c \<and> fs_exists h (path_resolve h wd (the c))")
    case True
    then show ?thesis by (simp add: resolveConfig_def resolveConfig_spec_def Let_def)
  next
    case False
    then have "fst (resolveConfig h t c wd) = fst (resolve_fallback h t wd)"
      by (auto simp: resolveConfig_def Let_def split: prod.splits)
    also have "\<dots> = resolveConfig_spec h t None wd" by (rule resolve_fallback_spec)
    also from False have "\<dots> = resolveConfig_spec h t c wd"
      by (auto simp: resolveConfig_spec_def truthy_opt_def)
    finally show ?thesis .
  qed
next
  assume g: "truthy_opt c"
  show "fst (resolveConfig h t c wd) = Some (path_resolve h wd (the c))
          \<longleftrightarrow> fs_exists h (path_resolve h wd (the c))"
  proof
    assume r: "fst (resolveConfig h t c wd) = Some (path_resolve h wd (the c))"
    show "fs_exists h (path_resolve h wd (the c))"
    proof (rule ccontr)
      assume n: "\<not> fs_exists h (path_resolve h wd (the c))"
      with g have "fst (resolveConfig h t c wd) = fst (resolve_fallback h t wd)"
        by (simp add: resolveConfig_def Let_def split: prod.splits)
      with r have "fst (resolve_fallback h t wd) = Some (path_resolve h wd (the c))" by simp
      from resolve_fallback_exists [OF this] n show False by simp
    qed
  next
    assume "fs_exists h (path_resolve h wd (the c))"
    with g show "fst (resolveConfig h t c wd) = Some (path_resolve h wd (the c))"
      by (simp add: resolveConfig_def Let_def)
  qed
next
  assume "truthy_opt c \<and> \<not> fs_exists h (path_resolve h wd (the c))"
  then show "resolveConfig h t c wd
          = (resolveConfig_spec h t None wd,
             CoreWarning (''Custom config not found for '' @ tool_id t @ '': '' @ the c) None
             # snd (resolve_fallback h t wd))"
    by (simp add: resolveConfig_def Let_def resolve_fallback_spec [symmetric] split: prod.splits)
qed

theorem resolveConfig_priority_witness:
  "resolveConfig config_host eslint (Some ''ci/eslint.json'') ''.''
     = (Some ''/repo/ci/eslint.json'', [CoreInfo ''Using custom config for eslint: ci/eslint.json''])
   \<and> fs_exists config_host (path_resolve config_host ''.'' ''ci/eslint.json'')
   \<and> \<not> fs_exists config_host (path_resolve config_host ''.'' ''missing.json'')
   \<and> resolveConfig config_host eslint (Some ''missing.json'') ''.''
     = (Some ''/repo/.eslintrc.js'',
        [CoreWarning ''Custom config not found for eslint: missing.json'' None,
         CoreInfo ''Found repository config for eslint: .eslintrc.js''])
   \<and> resolveConfig_spec config_host eslint (Some ''missing.json'') ''.''
     = Some ''/repo/.eslintrc.js''
   \<and> fst (resolveConfig config_host phpmd None ''.'') = Some ''/action/dist/defaults/phpmd.xml''
   \<and> fst (resolveConfig config_host phpstan None ''.'') = None
   \<and> fst (resolveConfig config_host typo3_rector None ''.'') = None"
proof -
  have e: "fs_exists config_host (path_resolve config_host ''.'' ''ci/eslint.json'')"
          "\<not> fs_exists config_host (path_resolve config_host ''.'' ''missing.json'')"
    by (simp_all add: config_host_def sample_host_def)
  have t: "truthy_opt (Some ''ci/eslint.json'')" "truthy_opt (Some ''missing.json'')"
    by (simp_all add: truthy_opt_def truthy_def)
  have f: "snd (resolve_fallback config_host eslint ''.'')
             = [CoreInfo ''Found repository config for eslint: .eslintrc.js'']"
    by (simp add: resolve_fallback_def config_host_def sample_host_def Let_def)
  have s: "resolveConfig_spec config_host eslint None ''.'' = Some ''/repo/.eslintrc.js''"
          "resolveConfig_spec config_host eslint (Some ''missing.json'') ''.''
             = Some ''/repo/.eslintrc.js''"
          "resolveConfig_spec config_host phpmd None ''.''
             = Some ''/action/dist/defaults/phpmd.xml''"
          "resolveConfig_spec config_host phpstan None ''.'' = None"
          "resolveConfig_spec config_host typo3_rector None ''.'' = None"
    by (simp_all add: resolveConfig_spec_def config_host_def sample_host_def truthy_opt_def
          truthy_def)
  have c: "resolveConfig config_host eslint (Some ''ci/eslint.json'') ''.''
     = (Some ''/repo/ci/eslint.json'', [CoreInfo ''Using custom config for eslint: ci/eslint.json''])"
    by (simp add: resolveConfig_def config_host_def sample_host_def truthy_opt_def truthy_def
          Let_def)
  from resolveConfig_priority [of config_host eslint "Some ''missing.json''" "''.''"]
       resolveConfig_priority [of config_host phpmd None "''.''"]
       resolveConfig_priority [of config_host phpstan None "''.''"]
       resolveConfig_priority [of config_host typo3_rector None "''.''"]
       e t f s c
  show ?thesis by simp
qed

section \<open>Tools without files: C6\<close>

lemma no_exec_resolveConfig: "filter is_exec (snd (resolveConfig h t c wd)) = []"
  by (simp add: resolveConfig_def resolve_fallback_def Let_def split: option.split prod.split)

lemma no_exec_findFiles: "filter is_exec (snd (findFiles h p wd)) = []"
  by (simp add: findFiles_def split: sum.split)

lemma no_exec_tool_files: "filter is_exec (snd (tool_files h t inputs)) = []"
  by (cases t) (simp_all add: no_exec_findFiles)

lemma exec_checkToolAvailability:
  "filter is_exec (snd (checkToolAvailability h t wd))
     = [ExecExec (fst (probe (TOOL_COMMANDS t))) (snd (probe (TOOL_COMMANDS t)))
          (if truthy wd then wd else process_cwd h)]"
proof -
  have "truthy (TOOL_COMMANDS t)" by (cases t) (simp_all add: truthy_def)
  then show ?thesis
    by (simp add: checkToolAvailability_def executeCommand_def Let_def split: sum.split)
qed

lemma probe_version: "last (snd (probe (TOOL_COMMANDS t))) = ''--version''"
  by (cases t) (simp_all add: probe_def Let_def)

text \<open>
  C6.  Let the tool be available and let its file search return no file.  Then
  \<open>runTool\<close> returns the result with the identifier of the tool,
  \<^verbatim>\<open>success: true\<close>, no issues and the empty raw output, and the one external command
  in its trace is the \<^verbatim>\<open>--version\<close> probe of the availability check: the analysis is
  not executed.
\<close>

theorem runTool_no_files:
  assumes "fst (checkToolAvailability h t (ActionInputs.workingDirectory inputs))"
    and "fst (tool_files h t inputs) = Inr []"
  shows "fst (runTool h t inputs)
           = Some \<lparr> tool = tool_id t, success = True, issues = [], rawOutput = [] \<rparr>
       \<and> filter is_exec (snd (runTool h t inputs))
           = [ExecExec (fst (probe (TOOL_COMMANDS t))) (snd (probe (TOOL_COMMANDS t)))
                (if truthy (ActionInputs.workingDirectory inputs) then ActionInputs.workingDirectory inputs
                 else process_cwd h)]
       \<and> last (snd (probe (TOOL_COMMANDS t))) = ''--version''"
proof -
  let ?wd = "ActionInputs.workingDirectory inputs"
  obtain av t1 where a: "checkToolAvailability h t ?wd = (av, t1)"
    by (cases "checkToolAvailability h t ?wd")
  with assms(1) have av: "av" by simp
  from a exec_checkToolAvailability [of h t ?wd]
  have x1: "filter is_exec t1
     = [ExecExec (fst (probe (TOOL_COMMANDS t))) (snd (probe (TOOL_COMMANDS t)))
          (if truthy ?wd then ?wd else process_cwd h)]"
    by simp
  obtain fr t2 where f: "tool_files h t inputs = (fr, t2)" by (cases "tool_files h t inputs")
  with assms(2) have fr: "fr = Inr []" by simp
  from f no_exec_tool_files [of h t inputs] have x2: "filter is_exec t2 = []" by simp
  obtain cp t3 where c: "resolveConfig h t (tool_config t inputs) ?wd = (cp, t3)"
    by (cases "resolveConfig h t (tool_config t inputs) ?wd")
  with no_exec_resolveConfig [of h t "tool_config t inputs" ?wd]
  have x3: "filter is_exec t3 = []" by simp
  from a av f fr c x1 x2 x3 show ?thesis
    by (simp add: runTool_def runTool_try_def probe_version)
qed

theorem runTool_no_files_witness:
  "fst (checkToolAvailability empty_host eslint (ActionInputs.workingDirectory sample_inputs))
   \<and> fst (tool_files empty_host eslint sample_inputs) = Inr []
   \<and> runTool empty_host eslint sample_inputs
       = (Some \<lparr> tool = ''eslint'', success = True, issues = [], rawOutput = [] \<rparr>,
          [ExecExec ''npx'' [''eslint'', ''--version''] ''.'',
           GlobCreate ''**/*.js'',
           CoreInfo ''Found repository config for eslint: .eslintrc.json'',
           CoreInfo ''No files found for eslint, skipping...''])
   \<and> filter is_exec (snd (runTool empty_host eslint sample_inputs))
       = [ExecExec ''npx'' [''eslint'', ''--version''] ''.'']"
proof -
  have a: "fst (checkToolAvailability empty_host eslint (ActionInputs.workingDirectory sample_inputs))"
    by (simp add: checkToolAvailability_def probe_def executeCommand_def empty_host_def
          sample_host_def sample_inputs_def truthy_def Let_def)
  have b: "fst (tool_files empty_host eslint sample_inputs) = Inr []"
    by (simp add: findFiles_def empty_host_def sample_inputs_def)
  have c: "runTool empty_host eslint sample_inputs
       = (Some \<lparr> tool = ''eslint'', success = True, issues = [], rawOutput = [] \<rparr>,
          [ExecExec ''npx'' [''eslint'', ''--version''] ''.'',
           GlobCreate ''**/*.js'',
           CoreInfo ''Found repository config for eslint: .eslintrc.json'',
           CoreInfo ''No files found for eslint, skipping...''])"
    by (simp add: runTool_def runTool_try_def checkToolAvailability_def probe_def
          executeCommand_def findFiles_def resolveConfig_def resolve_fallback_def
          empty_host_def sample_host_def sample_inputs_def truthy_def truthy_opt_def
          trim_def is_ws_def Let_def)
  from runTool_no_files [OF a b] a b c show ?thesis by simp
qed

section \<open>The cache manager: C7, C5, C1\<close>

text \<open>
  C7.  \<open>generateNpmCacheKey\<close> takes the pnpm lock file when it is on disk, else the
  yarn lock file, else the npm lock file; the file taken gives the hash prefix (of
  its content) and the label of the primary key.  With no lock file on disk the key
  is built from the label \<^verbatim>\<open>npm\<close> and the sentinel \<^verbatim>\<open>no-lock\<close>, and the function
  returns.
\<close>

theorem npm_key_lockfile_order:
  "(\<forall>c. fs_exists h (lockPath h m ''pnpm-lock.yaml'')
        \<and> fs_readFile h (lockPath h m ''pnpm-lock.yaml'') = Inr c \<longrightarrow>
        (\<exists>k. generateNpmCacheKey h m = Inr k
            \<and> key k = primary_key h m ''pnpm'' (hashPrefix h c)))
   \<and> (\<forall>c. \<not> fs_exists h (lockPath h m ''pnpm-lock.yaml'')
        \<and> fs_exists h (lockPath h m ''yarn.lock'')
        \<and> fs_readFile h (lockPath h m ''yarn.lock'') = Inr c \<longrightarrow>
        (\<exists>k. generateNpmCacheKey h m = Inr k
            \<and> key k = primary_key h m ''yarn'' (hashPrefix h c)))
   \<and> (\<forall>c. \<not> fs_exists h (lockPath h m ''pnpm-lock.yaml'')
        \<and> \<not> fs_exists h (lockPath h m ''yarn.lock'')
        \<and> fs_exists h (lockPath h m ''package-lock.json'')
        \<and> fs_readFile h (lockPath h m ''package-lock.json'') = Inr c \<longrightarrow>
        (\<exists>k. generateNpmCacheKey h m = Inr k
            \<and> key k = primary_key h m ''npm'' (hashPrefix h c)))
   \<and> (\<not> fs_exists h (lockPath h m ''pnpm-lock.yaml'')
        \<and> \<not> fs_exists h (lockPath h m ''yarn.lock'')
        \<and> \<not> fs_exists h (lockPath h m ''package-lock.json'') \<longrightarrow>
        (\<exists>k. generateNpmCacheKey h m = Inr k
            \<and> key k = primary_key h m ''npm'' ''no-lock''))"
  by (simp add: generateNpmCacheKey_def npm_lock_def lock_hash_def lockPath_def
        primary_key_def hashPrefix_def Let_def)

theorem npm_key_lockfile_order_witness:
  "map_sum id key
     (generateNpmCacheKey
        (lock_host [''/repo/package-lock.json'', ''/repo/yarn.lock'', ''/repo/pnpm-lock.yaml''])
        sample_manager)
     = Inr ''code-quality-action-linux-pnpm-9f2c41d0''
   \<and> map_sum id key
       (generateNpmCacheKey (lock_host [''/repo/package-lock.json'', ''/repo/yarn.lock''])
          sample_manager)
     = Inr ''code-quality-action-linux-yarn-3b8e05c6''
   \<and> map_sum id key
       (generateNpmCacheKey (lock_host [''/repo/package-lock.json'']) sample_manager)
     = Inr ''code-quality-action-linux-npm-e47a1b92''
   \<and> map_sum id key (generateNpmCacheKey (lock_host []) sample_manager)
     = Inr ''code-quality-action-linux-npm-no-lock''"
proof -
  let ?h3 = "lock_host [''/repo/package-lock.json'', ''/repo/yarn.lock'', ''/repo/pnpm-lock.yaml'']"
  let ?h2 = "lock_host [''/repo/package-lock.json'', ''/repo/yarn.lock'']"
  let ?h1 = "lock_host [''/repo/package-lock.json'']"
  let ?h0 = "lock_host []"
  have p3: "fs_exists ?h3 (lockPath ?h3 sample_manager ''pnpm-lock.yaml'')
          \<and> fs_readFile ?h3 (lockPath ?h3 sample_manager ''pnpm-lock.yaml'')
              = Inr ''lock:/repo/pnpm-lock.yaml''"
    by (simp add: lock_host_def sample_host_def sample_manager_def lockPath_def)
  have p2: "\<not> fs_exists ?h2 (lockPath ?h2 sample_manager ''pnpm-lock.yaml'')
          \<and> fs_exists ?h2 (lockPath ?h2 sample_manager ''yarn.lock'')
          \<and> fs_readFile ?h2 (lockPath ?h2 sample_manager ''yarn.lock'')
              = Inr ''lock:/repo/yarn.lock''"
    by (simp add: lock_host_def sample_host_def sample_manager_def lockPath_def)
  have p1: "\<not> fs_exists ?h1 (lockPath ?h1 sample_manager ''pnpm-lock.yaml'')
          \<and> \<not> fs_exists ?h1 (lockPath ?h1 sample_manager ''yarn.lock'')
          \<and> fs_exists ?h1 (lockPath ?h1 sample_manager ''package-lock.json'')
          \<and> fs_readFile ?h1 (lockPath ?h1 sample_manager ''package-lock.json'')
              = Inr ''lock:/repo/package-lock.json''"
    by (simp add: lock_host_def sample_host_def sample_manager_def lockPath_def)
  have p0: "\<not> fs_exists ?h0 (lockPath ?h0 sample_manager ''pnpm-lock.yaml'')
          \<and> \<not> fs_exists ?h0 (lockPath ?h0 sample_manager ''yarn.lock'')
          \<and> \<not> fs_exists ?h0 (lockPath ?h0 sample_manager ''package-lock.json'')"
    by (simp add: lock_host_def sample_host_def sample_manager_def lockPath_def)
  have k: "primary_key ?h3 sample_manager ''pnpm'' (hashPrefix ?h3 ''lock:/repo/pnpm-lock.yaml'')
             = ''code-quality-action-linux-pnpm-9f2c41d0''"
          "primary_key ?h2 sample_manager ''yarn'' (hashPrefix ?h2 ''lock:/repo/yarn.lock'')
             = ''code-quality-action-linux-yarn-3b8e05c6''"
          "primary_key ?h1 sample_manager ''npm'' (hashPrefix ?h1 ''lock:/repo/package-lock.json'')
             = ''code-quality-action-linux-npm-e47a1b92''"
          "primary_key ?h0 sample_manager ''npm'' ''no-lock''
             = ''code-quality-action-linux-npm-no-lock''"
    by (simp_all add: primary_key_def hashPrefix_def lock_host_def sample_host_def
          sample_manager_def sample_digest_def)
  from npm_key_lockfile_order [of ?h3 sample_manager] p3
  have a3: "\<exists>k. generateNpmCacheKey ?h3 sample_manager = Inr k
            \<and> key k = primary_key ?h3 sample_manager ''pnpm''
                        (hashPrefix ?h3 ''lock:/repo/pnpm-lock.yaml'')"
    by blast
  from npm_key_lockfile_order [of ?h2 sample_manager] p2
  have a2: "\<exists>k. generateNpmCacheKey ?h2 sample_manager = Inr k
            \<and> key k = primary_key ?h2 sample_manager ''yarn''
                        (hashPrefix ?h2 ''lock:/repo/yarn.lock'')"
    by blast
  from npm_key_lockfile_order [of ?h1 sample_manager] p1
  have a1: "\<exists>k. generateNpmCacheKey ?h1 sample_manager = Inr k
            \<and> key k = primary_key ?h1 sample_manager ''npm''
                        (hashPrefix ?h1 ''lock:/repo/package-lock.json'')"
    by blast
  from npm_key_lockfile_order [of ?h0 sample_manager] p0
  have a0: "\<exists>k. generateNpmCacheKey ?h0 sample_manager = Inr k
            \<and> key k = primary_key ?h0 sample_manager ''npm'' ''no-lock''"
    by blast
  from a3 a2 a1 a0 show ?thesis by (auto simp: k)
qed

text \<open>
  C5.  When the state of an ecosystem records a hit (its \<^verbatim>\<open>-cache-hit\<close> entry is
  \<^verbatim>\<open>true\<close>), the save method of that ecosystem returns after one debug line and
  does not call \<^verbatim>\<open>cache.saveCache\<close>; when both record a hit, the save phase makes
  no such call.
\<close>

theorem save_after_hit:
  "(core_getState h ''composer-cache-hit'' = ''true'' \<longrightarrow>
      saveComposerCache h m
        = (Inr (), [CoreDebug ''Composer cache hit occurred, skipping save''])
    \<and> filter is_saveCache (snd (saveComposerCache h m)) = [])
   \<and> (core_getState h ''npm-cache-hit'' = ''true'' \<longrightarrow>
      saveNpmCache h m = (Inr (), [CoreDebug ''npm cache hit occurred, skipping save''])
    \<and> filter is_saveCache (snd (saveNpmCache h m)) = [])
   \<and> (core_getState h ''composer-cache-hit'' = ''true''
      \<and> core_getState h ''npm-cache-hit'' = ''true'' \<longrightarrow>
      filter is_saveCache (save h m) = [])"
  by (simp add: saveComposerCache_def saveNpmCache_def saveCache_def save_def Let_def)

theorem save_after_hit_witness:
  "core_getState (state_host ''true'') ''composer-cache-hit'' = ''true''
   \<and> core_getState (state_host ''true'') ''npm-cache-hit'' = ''true''
   \<and> filter is_saveCache (snd (saveComposerCache (state_host ''true'') sample_manager)) = []
   \<and> filter is_saveCache (snd (saveNpmCache (state_host ''true'') sample_manager)) = []
   \<and> save (state_host ''true'') sample_manager
       = [CoreStartGroup ''Saving cache'',
          CoreDebug ''Composer cache hit occurred, skipping save'',
          CoreDebug ''npm cache hit occurred, skipping save'',
          CoreInfo ''Cache saving completed'', CoreEndGroup]
   \<and> filter is_saveCache (save (state_host ''false'') sample_manager)
       = [CacheSaveCache [''/repo/vendor''] ''code-quality-action-linux-composer-no-lock'',
          CacheSaveCache [''/repo/node_modules''] ''code-quality-action-linux-npm-no-lock'']"
proof -
  have s: "core_getState (state_host ''true'') ''composer-cache-hit'' = ''true''"
          "core_getState (state_host ''true'') ''npm-cache-hit'' = ''true''"
    by (simp_all add: state_host_def)
  have f: "filter is_saveCache (save (state_host ''false'') sample_manager)
       = [CacheSaveCache [''/repo/vendor''] ''code-quality-action-linux-composer-no-lock'',
          CacheSaveCache [''/repo/node_modules''] ''code-quality-action-linux-npm-no-lock'']"
    by (simp add: save_def saveComposerCache_def saveNpmCache_def saveCache_def
          generateComposerCacheKey_def generateNpmCacheKey_def npm_lock_def
          filterExistingPaths_def state_host_def sample_host_def sample_manager_def
          truthy_def truthy_opt_def Let_def)
  from save_after_hit [of "state_host ''true''" sample_manager] s f
  show ?thesis by (simp add: save_def sample_manager_def)
qed

text \<open>
  C1 fails on the code for Composer: the second fallback key of
  \<open>generateComposerCacheKey\<close> leaves the platform out of the middle of the key, so it
  is not a prefix of the primary key.  The keys on a Linux runner with the default
  key prefix and no \<^verbatim>\<open>composer.lock\<close>:
\<close>

theorem composer_fallback_not_prefix:
  "map_sum id (\<lambda>k. (key k, restoreKeys k))
     (generateComposerCacheKey (lock_host []) sample_manager)
     = Inr (''code-quality-action-linux-composer-no-lock'',
            [''code-quality-action-linux-composer-'', ''code-quality-action-composer-''])
   \<and> prefix ''code-quality-action-linux-composer-'' ''code-quality-action-linux-composer-no-lock''
   \<and> \<not> prefix ''code-quality-action-composer-'' ''code-quality-action-linux-composer-no-lock''"
  by (simp add: generateComposerCacheKey_def lock_host_def sample_host_def sample_manager_def
        truthy_opt_def truthy_def Let_def)

section \<open>Further properties\<close>

text \<open>
  The JS ecosystem does what C1 says, whatever the host: the three fallback keys of
  \<open>generateNpmCacheKey\<close> are prefixes of the primary key, each a proper prefix of the
  one before it.
\<close>

theorem npm_fallback_keys:
  assumes "generateNpmCacheKey h m = Inr k"
  shows "\<exists>r1 r2 r3. restoreKeys k = [r1, r2, r3]
           \<and> prefix r1 (key k) \<and> strict_prefix r2 r1 \<and> strict_prefix r3 r2
           \<and> list_all (\<lambda>r. prefix r (key k)) (restoreKeys k)"
proof -
  from assms obtain lockHash packageManager where
    k: "key k = keyPrefix (config m) @ ''-'' @ process_platform h @ ''-''
                  @ packageManager @ ''-'' @ lockHash"
    and r: "restoreKeys k = [keyPrefix (config m) @ ''-'' @ process_platform h @ ''-''
                               @ packageManager @ ''-'',
                             keyPrefix (config m) @ ''-'' @ process_platform h @ ''-'',
                             keyPrefix (config m) @ ''-'']"
    by (auto simp: generateNpmCacheKey_def Let_def split: sum.splits prod.splits)
  show ?thesis
    by (simp add: k r strict_prefix_def)
qed

theorem npm_fallback_keys_witness:
  "generateNpmCacheKey (lock_host []) sample_manager
     = Inr \<lparr> key = ''code-quality-action-linux-npm-no-lock'',
             restoreKeys = [''code-quality-action-linux-npm-'', ''code-quality-action-linux-'',
                            ''code-quality-action-''],
             paths = [''/home/runner/.npm'', ''/repo/node_modules''] \<rparr>
   \<and> (\<exists>r1 r2 r3.
         [''code-quality-action-linux-npm-'', ''code-quality-action-linux-'',
          ''code-quality-action-''] = [r1, r2, r3]
       \<and> prefix r1 ''code-quality-action-linux-npm-no-lock''
       \<and> strict_prefix r2 r1 \<and> strict_prefix r3 r2)"
proof -
  have e: "generateNpmCacheKey (lock_host []) sample_manager
     = Inr \<lparr> key = ''code-quality-action-linux-npm-no-lock'',
             restoreKeys = [''code-quality-action-linux-npm-'', ''code-quality-action-linux-'',
                            ''code-quality-action-''],
             paths = [''/home/runner/.npm'', ''/repo/node_modules''] \<rparr>"
    by (simp add: generateNpmCacheKey_def npm_lock_def lock_host_def sample_host_def
          sample_manager_def truthy_opt_def truthy_def Let_def)
  from npm_fallback_keys [OF e] e show ?thesis by simp
qed

text \<open>
  For Composer the first fallback key is a prefix of the primary key; the second is
  the key prefix followed by \<^verbatim>\<open>-composer-\<close>.
\<close>

lemma composer_fallback_keys:
  assumes "generateComposerCacheKey h m = Inr k"
  shows "\<exists>r1. restoreKeys k = [r1, keyPrefix (config m) @ ''-composer-''] \<and> prefix r1 (key k)"
  using assms
  by (auto simp: generateComposerCacheKey_def Let_def split: sum.splits if_splits)

text \<open>On every platform of Node, with any key prefix and any lock file, the second
  fallback key of Composer is not a prefix of the primary key.\<close>

lemma composer_second_fallback_key:
  assumes "generateComposerCacheKey h m = Inr k"
    and "process_platform h \<in> set node_platforms"
  shows "\<not> prefix (restoreKeys k ! 1) (key k)"
proof -
  from assms(1) obtain lockHash where
    k: "key k = keyPrefix (config m) @ ''-'' @ process_platform h @ ''-composer-'' @ lockHash"
    and r: "restoreKeys k = [keyPrefix (config m) @ ''-'' @ process_platform h @ ''-composer-'',
                             keyPrefix (config m) @ ''-composer-'']"
    by (auto simp: generateComposerCacheKey_def Let_def split: sum.splits if_splits)
  from assms(2) have "\<not> prefix ''composer-'' (process_platform h @ ''-composer-'' @ lockHash)"
    by (auto simp: node_platforms_def)
  then show ?thesis by (simp add: k r)
qed

text \<open>
  A tool that is not available gives no result: \<open>runTool\<close> returns \<^verbatim>\<open>null\<close>, and the
  results of the run are those of the other tools.
\<close>

theorem unavailable_tool_skipped:
  assumes "\<not> fst (checkToolAvailability h t (ActionInputs.workingDirectory inputs))"
  shows "fst (runTool h t inputs) = None
       \<and> fst (run_tools h inputs (t # ts)) = fst (run_tools h inputs ts)"
proof -
  obtain av t1 where a: "checkToolAvailability h t (ActionInputs.workingDirectory inputs) = (av, t1)"
    by (cases "checkToolAvailability h t (ActionInputs.workingDirectory inputs)")
  with assms have "\<not> av" by simp
  with a have n: "fst (runTool h t inputs) = None"
    by (simp add: runTool_def runTool_try_def)
  obtain r tr where r: "runTool h t inputs = (r, tr)" by (cases "runTool h t inputs")
  obtain rs trs where rs: "run_tools h inputs ts = (rs, trs)" by (cases "run_tools h inputs ts")
  from n r rs show ?thesis by simp
qed

theorem unavailable_tool_skipped_witness:
  "\<not> fst (checkToolAvailability sample_host phpstan (ActionInputs.workingDirectory sample_inputs))
   \<and> fst (runTool sample_host phpstan sample_inputs) = None
   \<and> fst (run_tools sample_host sample_inputs [phpstan, eslint, stylelint]) = sample_results"
proof -
  have a: "\<not> fst (checkToolAvailability sample_host phpstan
                    (ActionInputs.workingDirectory sample_inputs))"
    by (simp add: checkToolAvailability_def probe_def executeCommand_def sample_host_def
          sample_inputs_def truthy_def Let_def)
  have t: "tools sample_inputs = [eslint, stylelint]"
    by (simp add: sample_inputs_def)
  from unavailable_tool_skipped [OF a, of "[eslint, stylelint]"] a sample_run_tools
  show ?thesis by (simp add: t)
qed

text \<open>
  An error that is thrown while a tool is run (by the file search or by the runner)
  is caught by \<open>runTool\<close>: the result is a failed one with no issues and the message
  of the error as raw output, and the last effect is the error line.
\<close>

theorem runTool_contains_errors:
  assumes "fst (runTool_try h t inputs) = Inl e"
  shows "fst (runTool h t inputs)
           = Some \<lparr> tool = tool_id t, success = False, issues = [],
                    rawOutput = error_message e \<rparr>
       \<and> last (snd (runTool h t inputs))
           = CoreError (''Error running '' @ tool_id t @ '': '' @ error_string e) None"
proof -
  obtain x tr where a: "runTool_try h t inputs = (x, tr)" by (cases "runTool_try h t inputs")
  with assms have "x = Inl e" by simp
  with a show ?thesis by (simp add: runTool_def)
qed

theorem runTool_contains_errors_witness:
  "fst (runTool_try globless_host eslint sample_inputs) = Inl (Thrown ''Error'' ''Invalid pattern'')
   \<and> runTool globless_host eslint sample_inputs
       = (Some \<lparr> tool = ''eslint'', success = False, issues = [],
                  rawOutput = ''Invalid pattern'' \<rparr>,
          [ExecExec ''npx'' [''eslint'', ''--version''] ''.'',
           GlobCreate ''**/*.js'',
           CoreError ''Error running eslint: Error: Invalid pattern'' None])"
proof -
  have a: "fst (runTool_try globless_host eslint sample_inputs)
             = Inl (Thrown ''Error'' ''Invalid pattern'')"
    by (simp add: runTool_try_def checkToolAvailability_def probe_def executeCommand_def
          findFiles_def globless_host_def sample_host_def sample_inputs_def truthy_def Let_def)
  have b: "snd (runTool globless_host eslint sample_inputs)
             = [ExecExec ''npx'' [''eslint'', ''--version''] ''.'',
                GlobCreate ''**/*.js'',
                CoreError ''Error running eslint: Error: Invalid pattern'' None]"
    by (simp add: runTool_def runTool_try_def checkToolAvailability_def probe_def
          executeCommand_def findFiles_def globless_host_def sample_host_def sample_inputs_def
          error_string_def truthy_def Let_def)
  from runTool_contains_errors [OF a] b show ?thesis
    by (simp add: prod_eq_iff a)
qed

text \<open>
  When the \<^verbatim>\<open>try\<close> block of a runner that reads JSON ends without an error, the
  result holds the issues that the loops pushed, and no warning is logged: a document
  of another shape on which no statement throws is read without a word.
\<close>

theorem read_without_failure:
  assumes "t \<noteq> editorconfig" and "t \<noteq> composer_normalize"
    and "exec_exec h (fst (runner_command t cfg)) (snd (runner_command t cfg)) (exec_cwd h cfg)
           = Inr (code, out, err)"
    and "trim out \<noteq> []"
    and "try_block h (runner_collect h t) (trim out) = (None, pushed)"
  shows "runner_run h t cfg
           = (Inr \<lparr> tool = runner_name t, success = (code = 0), issues = pushed,
                    rawOutput = trim out @ trim err \<rparr>,
              [CoreInfo (''Running '' @ runner_name t @ ''...''),
               ExecExec (fst (runner_command t cfg)) (snd (runner_command t cfg))
                 (exec_cwd h cfg)])"
proof -
  from assms(3)
  have x: "exec_exec h (fst (runner_command t cfg)) (snd (runner_command t cfg))
             (if truthy (RunnerConfig.workingDirectory cfg) then RunnerConfig.workingDirectory cfg
              else process_cwd h) = Inr (code, out, err)"
    by (simp add: exec_cwd_def)
  show ?thesis
  proof (cases "t = typo3_rector")
    case True
    with assms(5) have "try_block h (Rector_collect h) (trim out) = (None, pushed)" by simp
    with True assms(4) show ?thesis
      unfolding runner_run_parts finish_run_returns [OF x]
      by (simp add: exec_cwd_def Rector_extract_def truthy_def)
  next
    case False
    with assms(1,2,4,5) show ?thesis
      unfolding runner_run_parts finish_run_returns [OF x]
      by (simp add: exec_cwd_def parse_guarded_def truthy_def)
  qed
qed

theorem read_without_failure_witness:
  "exec_exec sample_host ''npx'' [''stylelint'', ''--formatter=json'', ''src/app.css''] ''.''
     = Inr (0, ''[]'', [])
   \<and> try_block sample_host (runner_collect sample_host stylelint) (trim ''[]'') = (None, [])
   \<and> runner_run sample_host stylelint css_config
     = (Inr \<lparr> tool = ''Stylelint'', success = True, issues = [], rawOutput = ''[]'' \<rparr>,
        [CoreInfo ''Running Stylelint...'',
         ExecExec ''npx'' [''stylelint'', ''--formatter=json'', ''src/app.css''] ''.''])"
proof -
  have x: "exec_exec sample_host (fst (runner_command stylelint css_config))
             (snd (runner_command stylelint css_config)) (exec_cwd sample_host css_config)
           = Inr (0, ''[]'', [])"
    by (simp add: sample_host_def command_defs)
  have t: "trim ''[]'' = ''[]''" by (simp add: trim_def is_ws_def)
  have n: "trim ''[]'' \<noteq> []" by (simp add: t)
  have b: "try_block sample_host (runner_collect sample_host stylelint) (trim ''[]'') = (None, [])"
    by (simp add: t try_block_def Stylelint_collect_def sample_host_def sample_eslint_json_def)
  from read_without_failure [OF _ _ x n b] b show ?thesis
    by (simp add: command_defs t sample_host_def)
qed

text \<open>
  In the trace of a whole run whose summary is generated, the annotations are as many
  as the \<^verbatim>\<open>total-issues\<close> output says.
\<close>

theorem run_annotations_match_total:
  assumes "fst (generateSummary h (fst (run_tools h inputs (tools inputs)))) = Inr ()"
  shows "output_values ''total-issues'' (run h inputs)
           = [OutNum (length (filter is_annotation (run h inputs)))]"
proof -
  note v = run_written(1) [OF assms]
  note n = run_written(3) [OF assms]
  show ?thesis
    by (subst output_values_filter) (simp add: v n, simp add: outputs_def decide_def Let_def)
qed

theorem run_annotations_match_total_witness:
  "fst (generateSummary sample_host (fst (run_tools sample_host sample_inputs (tools sample_inputs))))
     = Inr ()
   \<and> output_values ''total-issues'' (run sample_host sample_inputs) = [OutNum 3]
   \<and> length (filter is_annotation (run sample_host sample_inputs)) = 3"
proof -
  have a: "fst (generateSummary sample_host
                 (fst (run_tools sample_host sample_inputs (tools sample_inputs)))) = Inr ()"
    by (simp add: sample_run_tools sample_summary)
  from run_annotations_match_total [OF a] run_written(3) [OF a] a
  show ?thesis by (simp add: sample_run_tools sample_sumIssues)
qed

end
